theory Spec2Isabelle
  imports
    Complex_Main
    "HOL-Library.Char_ord"
    "HOL-Library.List_Lexorder"
    "HOL-Library.Product_Lexorder"
begin

section \<open>Climate data downloader: unit conversion, date clamping\<close>

text \<open>
  The development follows \<^verbatim>\<open>src/app.py\<close>. Python floats are modelled as
  \<^typ>\<open>real\<close>: the arithmetic of the source (\<^verbatim>\<open>value - 273.15\<close>,
  \<^verbatim>\<open>value * 86400\<close>, the mean of a group) is read as exact arithmetic, rounding is
  not modelled. Python strings are byte lists (\<^typ>\<open>string\<close>), compared as Python
  compares them (lexicographically, character by character).
\<close>

subsection \<open>Unit converter (\<^verbatim>\<open>convert_units\<close>, lines 77-88)\<close>

definition convert_units :: "string \<Rightarrow> real \<Rightarrow> real" where
  "convert_units band v =
     (if band \<in> set [''tas'', ''tasmax'', ''tasmin''] then v - 273.15
      else if band = ''pr'' then v * 86400
      else v)"

subsection \<open>Calendar dates and their text form\<close>

text \<open>
  A \<^verbatim>\<open>pd.Timestamp\<close> at midnight is a calendar day: year, month, day, ordered
  chronologically, which on these triples is the lexicographic order.
\<close>

datatype date = Date (year: nat) (month: nat) (day: nat)

definition date_key :: "date \<Rightarrow> nat \<times> nat \<times> nat" where
  "date_key d = (year d, month d, day d)"

instantiation date :: linorder
begin

definition less_eq_date :: "date \<Rightarrow> date \<Rightarrow> bool" where
  "less_eq_date a b \<longleftrightarrow> date_key a \<le> date_key b"

definition less_date :: "date \<Rightarrow> date \<Rightarrow> bool" where
  "less_date a b \<longleftrightarrow> date_key a < date_key b"

instance
proof
  fix a b c :: date
  show "a < b \<longleftrightarrow> a \<le> b \<and> \<not> b \<le> a"
    by (auto simp: less_eq_date_def less_date_def)
  show "a \<le> a"
    by (simp add: less_eq_date_def)
  show "a \<le> b \<Longrightarrow> b \<le> c \<Longrightarrow> a \<le> c"
    by (simp add: less_eq_date_def)
  show "a \<le> b \<Longrightarrow> b \<le> a \<Longrightarrow> a = b"
  proof -
    assume "a \<le> b" and "b \<le> a"
    then have "date_key a = date_key b"
      by (simp add: less_eq_date_def)
    then show "a = b"
      by (simp add: date_key_def date.expand)
  qed
  show "a \<le> b \<or> b \<le> a"
    by (auto simp: less_eq_date_def)
qed

end

definition is_leap :: "nat \<Rightarrow> bool" where
  "is_leap y \<longleftrightarrow> y mod 4 = 0 \<and> (y mod 100 \<noteq> 0 \<or> y mod 400 = 0)"

definition days_in_month :: "nat \<Rightarrow> nat \<Rightarrow> nat" where
  "days_in_month y m =
     (if m = 2 then (if is_leap y then 29 else 28)
      else if m \<in> set [4, 6, 9, 11] then 30
      else 31)"

definition valid_date :: "date \<Rightarrow> bool" where
  "valid_date d \<longleftrightarrow>
     1 \<le> month d \<and> month d \<le> 12 \<and> 1 \<le> day d \<and> day d \<le> days_in_month (year d) (month d)"

text \<open>
  The days a nanosecond \<^verbatim>\<open>pd.Timestamp\<close> can hold at midnight:
  \<^verbatim>\<open>Timestamp.min\<close> is 1677-09-21 00:12:43 and \<^verbatim>\<open>Timestamp.max\<close> is
  2262-04-11 23:47:16.
\<close>

definition timestamp_range :: "date \<Rightarrow> bool" where
  "timestamp_range d \<longleftrightarrow> Date 1677 9 22 \<le> d \<and> d \<le> Date 2262 4 11"

definition is_digit :: "char \<Rightarrow> bool" where
  "is_digit c \<longleftrightarrow> (48::nat) \<le> of_char c \<and> of_char c \<le> (57::nat)"

definition digit_val :: "char \<Rightarrow> nat" where
  "digit_val c = of_char c - 48"

definition digit_char :: "nat \<Rightarrow> char" where
  "digit_char n = char_of (48 + n)"

definition digits_value :: "string \<Rightarrow> nat" where
  "digits_value ds = foldl (\<lambda>a c. 10 * a + digit_val c) 0 ds"

fun pad_digits :: "nat \<Rightarrow> nat \<Rightarrow> string" where
  "pad_digits 0 n = []"
| "pad_digits (Suc k) n = pad_digits k (n div 10) @ [digit_char (n mod 10)]"

datatype py_exn =
  TypeError | IndexError | KeyError | ValueError | AttributeError | OverflowError | RemoteError

text \<open>
  \<^verbatim>\<open>pd.to_datetime(s)\<close> on the text form the program uses, \<^verbatim>\<open>YYYY-MM-DD\<close>
  (the values of \<^verbatim>\<open>DECADES\<close>, and what \<^verbatim>\<open>strftime("%Y-%m-%d")\<close> returns).
  \<open>Inl ValueError\<close> stands for every other string: pandas raises on most of them and
  reads some in other formats, which is outside this model, so the theorems below speak
  about strings for which \<open>to_datetime\<close> returns \<open>Inr\<close>.
\<close>

definition to_datetime :: "string \<Rightarrow> py_exn + date" where
  "to_datetime s =
     (if length s = 10 \<and> s ! 4 = CHR ''-'' \<and> s ! 7 = CHR ''-''
         \<and> list_all is_digit (take 4 s) \<and> list_all is_digit (take 2 (drop 5 s))
         \<and> list_all is_digit (drop 8 s)
      then
        (let d = Date (digits_value (take 4 s)) (digits_value (take 2 (drop 5 s)))
                   (digits_value (drop 8 s))
         in if valid_date d \<and> timestamp_range d then Inr d else Inl ValueError)
      else Inl ValueError)"

definition strftime :: "date \<Rightarrow> string" where
  "strftime d = pad_digits 4 (year d) @ ''-'' @ pad_digits 2 (month d) @ ''-'' @ pad_digits 2 (day d)"

subsection \<open>Date range clamper (\<^verbatim>\<open>clamp_dates_for_scenario\<close>, lines 582-594)\<close>

text \<open>
  The pair \<^verbatim>\<open>(None, None)\<close> of the source is \<open>None\<close>; a pair of strings is
  \<open>Some\<close>. \<open>scenario_bounds\<close> is the \<^verbatim>\<open>s_min, s_max\<close> assignment.
\<close>

definition scenario_bounds :: "string \<Rightarrow> date \<times> date" where
  "scenario_bounds scenario =
     (if scenario = ''historical'' then (Date 1950 1 1, Date 2014 12 31)
      else (Date 2015 1 1, Date 2100 12 31))"

definition clamp_dates_for_scenario ::
  "string \<Rightarrow> string \<Rightarrow> string \<Rightarrow> py_exn + (string \<times> string) option" where
  "clamp_dates_for_scenario start_date end_date scenario =
     (case to_datetime start_date of
        Inl e \<Rightarrow> Inl e
      | Inr sdt0 \<Rightarrow>
          (case to_datetime end_date of
             Inl e \<Rightarrow> Inl e
           | Inr edt0 \<Rightarrow>
               (let (s_min, s_max) = scenario_bounds scenario;
                    sdt = max sdt0 s_min;
                    edt = min edt0 s_max
                in if sdt > edt then Inr None
                   else Inr (Some (strftime sdt, strftime edt)))))"

text \<open>The windows the specification names, as sets of days.\<close>

definition valid_window :: "string \<Rightarrow> date set" where
  "valid_window scenario =
     (if scenario = ''historical'' then {d. Date 1950 1 1 \<le> d \<and> d \<le> Date 2014 12 31}
      else {d. Date 2015 1 1 \<le> d \<and> d \<le> Date 2100 12 31})"

definition window :: "date \<Rightarrow> date \<Rightarrow> date set" where
  "window a b = {d. a \<le> d \<and> d \<le> b}"

section \<open>Tables, remote responses and the fetcher\<close>

subsection \<open>Observation records and data frames\<close>

text \<open>
  A row of the tidy table is the dictionary built at lines 671-677, with the keys
  \<^verbatim>\<open>date, band, value, model, scenario\<close> (\<open>val\<close> is the \<^verbatim>\<open>value\<close> column).
  A \<^verbatim>\<open>pd.DataFrame\<close> is its column order and its rows: the column order is what
  \<^verbatim>\<open>to_csv\<close> writes, and it differs between the frames the program builds.
\<close>

record obs =
  date :: string
  band :: string
  val :: real
  model :: string
  scenario :: string

record frame =
  columns :: "string list"
  rows :: "obs list"

text \<open>\<^verbatim>\<open>pd.DataFrame(columns=["date", "band", "value", "model", "scenario"])\<close>\<close>

definition empty_table :: frame where
  "empty_table = \<lparr>columns = [''date'', ''band'', ''value'', ''model'', ''scenario''], rows = []\<rparr>"

text \<open>
  \<^verbatim>\<open>pd.DataFrame.from_records(recs)\<close>: the columns are the keys of the records in
  insertion order; of an empty list it is a frame without columns.
\<close>

definition from_records :: "obs list \<Rightarrow> frame" where
  "from_records recs =
     (if recs = [] then \<lparr>columns = [], rows = []\<rparr>
      else \<lparr>columns = [''date'', ''band'', ''value'', ''model'', ''scenario''], rows = recs\<rparr>)"

text \<open>\<^verbatim>\<open>df.empty\<close>: an axis of length 0.\<close>

definition frame_empty :: "frame \<Rightarrow> bool" where
  "frame_empty df \<longleftrightarrow> rows df = [] \<or> columns df = []"

subsection \<open>Values returned by the remote catalog, and Python's operations on them\<close>

text \<open>
  \<^verbatim>\<open>getInfo()\<close> returns decoded JSON. The operations below are the ones the fetcher
  applies to such a value, each with the exception Python raises. Strings are byte lists,
  so an index into a string with characters beyond ASCII counts bytes here and code points
  in Python.
\<close>

datatype jv =
  JNull | JBool bool | JNum real | JStr string | JList "jv list" | JDict "(string \<times> jv) list"

text \<open>\<^verbatim>\<open>bool(x)\<close>, as \<^verbatim>\<open>not arr\<close> tests it.\<close>

fun py_truthy :: "jv \<Rightarrow> bool" where
  "py_truthy JNull = False"
| "py_truthy (JBool b) = b"
| "py_truthy (JNum x) = (x \<noteq> 0)"
| "py_truthy (JStr s) = (s \<noteq> [])"
| "py_truthy (JList xs) = (xs \<noteq> [])"
| "py_truthy (JDict kvs) = (kvs \<noteq> [])"

fun py_len :: "jv \<Rightarrow> py_exn + nat" where
  "py_len (JStr s) = Inr (length s)"
| "py_len (JList xs) = Inr (length xs)"
| "py_len (JDict kvs) = Inr (length kvs)"
| "py_len _ = Inl TypeError"

text \<open>\<^verbatim>\<open>x[i]\<close> for an index \<open>i \<ge> 0\<close>.\<close>

fun py_getitem :: "jv \<Rightarrow> nat \<Rightarrow> py_exn + jv" where
  "py_getitem (JList xs) i = (if i < length xs then Inr (xs ! i) else Inl IndexError)"
| "py_getitem (JStr s) i = (if i < length s then Inr (JStr [s ! i]) else Inl IndexError)"
| "py_getitem (JDict kvs) i = Inl KeyError"
| "py_getitem _ i = Inl TypeError"

text \<open>\<^verbatim>\<open>x[1:]\<close>\<close>

fun py_rest :: "jv \<Rightarrow> py_exn + jv" where
  "py_rest (JList xs) = Inr (JList (tl xs))"
| "py_rest (JStr s) = Inr (JStr (tl s))"
| "py_rest (JDict kvs) = Inl KeyError"
| "py_rest _ = Inl TypeError"

text \<open>The items \<^verbatim>\<open>for r in x\<close> visits.\<close>

fun py_iter :: "jv \<Rightarrow> py_exn + jv list" where
  "py_iter (JList xs) = Inr xs"
| "py_iter (JStr s) = Inr (map (\<lambda>c. JStr [c]) s)"
| "py_iter (JDict kvs) = Inr (map (\<lambda>kv. JStr (fst kv)) kvs)"
| "py_iter _ = Inl TypeError"

text \<open>The lowest position at which \<open>needle\<close> occurs in \<open>hay\<close> (\<^verbatim>\<open>str.find\<close>).\<close>

fun find_sub :: "string \<Rightarrow> string \<Rightarrow> nat option" where
  "find_sub needle [] = (if needle = [] then Some 0 else None)"
| "find_sub needle (c # cs) =
     (if take (length needle) (c # cs) = needle then Some 0
      else map_option Suc (find_sub needle cs))"

text \<open>The lowest position of an item equal to the string (\<^verbatim>\<open>list.index\<close>).\<close>

fun find_item :: "string \<Rightarrow> jv list \<Rightarrow> nat option" where
  "find_item s [] = None"
| "find_item s (x # xs) = (if x = JStr s then Some 0 else map_option Suc (find_item s xs))"

text \<open>\<^verbatim>\<open>s in x\<close> for a string \<open>s\<close>.\<close>

fun py_contains :: "jv \<Rightarrow> string \<Rightarrow> py_exn + bool" where
  "py_contains (JList xs) s = Inr (JStr s \<in> set xs)"
| "py_contains (JStr h) s = Inr (find_sub s h \<noteq> None)"
| "py_contains (JDict kvs) s = Inr (s \<in> set (map fst kvs))"
| "py_contains _ s = Inl TypeError"

text \<open>\<^verbatim>\<open>x.index(s)\<close> for a string \<open>s\<close>.\<close>

fun py_index :: "jv \<Rightarrow> string \<Rightarrow> py_exn + nat" where
  "py_index (JList xs) s = (case find_item s xs of Some i \<Rightarrow> Inr i | None \<Rightarrow> Inl ValueError)"
| "py_index (JStr h) s = (case find_sub s h of Some i \<Rightarrow> Inr i | None \<Rightarrow> Inl ValueError)"
| "py_index _ s = Inl AttributeError"

text \<open>\<^verbatim>\<open>[b for b in bands if b in x]\<close>\<close>

fun py_filter_in :: "string list \<Rightarrow> jv \<Rightarrow> py_exn + string list" where
  "py_filter_in [] x = Inr []"
| "py_filter_in (b # bs) x =
     (case py_contains x b of
        Inl e \<Rightarrow> Inl e
      | Inr c \<Rightarrow>
          (case py_filter_in bs x of
             Inl e \<Rightarrow> Inl e
           | Inr r \<Rightarrow> Inr (if c then b # r else r)))"

text \<open>
  What the libraries compute and this development does not: the date of a millisecond
  timestamp (\<^verbatim>\<open>pd.to_datetime(x, unit='ms', utc=True).tz_convert(None)\<close> followed by
  \<^verbatim>\<open>.date().isoformat()\<close>, \<open>None\<close> when one of them raises), \<^verbatim>\<open>float(s)\<close> of a
  string (\<open>None\<close> for \<^verbatim>\<open>ValueError\<close>), and the text \<^verbatim>\<open>to_csv\<close> writes for a float.
\<close>

record lib =
  ms_to_date :: "jv \<Rightarrow> string option"
  float_of_str :: "string \<Rightarrow> real option"
  float_repr :: "real \<Rightarrow> string"

text \<open>
  \<^verbatim>\<open>float(val)\<close>. A JSON number is decoded to an \<^verbatim>\<open>int\<close> or to a
  \<^verbatim>\<open>float\<close>, and both are read as reals here. Every finite float is below
  \<open>float_limit\<close> in magnitude, so a number at or beyond it is an \<^verbatim>\<open>int\<close>, and
  \<^verbatim>\<open>float\<close> of such an \<^verbatim>\<open>int\<close> raises \<^verbatim>\<open>OverflowError\<close> (it would round to
  \<open>2 ^ 1024\<close>). The rounding of a smaller \<^verbatim>\<open>int\<close> to the nearest float and the
  floats \<^verbatim>\<open>inf\<close> and \<^verbatim>\<open>nan\<close> are not modelled.
\<close>

definition float_limit :: real where
  "float_limit = 2 ^ 1024 - 2 ^ 970"

fun py_float :: "lib \<Rightarrow> jv \<Rightarrow> py_exn + real" where
  "py_float L (JNum x) = (if float_limit \<le> \<bar>x\<bar> then Inl OverflowError else Inr x)"
| "py_float L (JBool b) = Inr (if b then 1 else 0)"
| "py_float L (JStr s) = (case float_of_str L s of Some x \<Rightarrow> Inr x | None \<Rightarrow> Inl ValueError)"
| "py_float L _ = Inl TypeError"

subsection \<open>The remote catalog\<close>

text \<open>
  A query is the filtered collection of lines 602-605 with the point of line 601. The
  catalog answers three requests: \<^verbatim>\<open>coll.size().getInfo()\<close>,
  \<^verbatim>\<open>coll.first().bandNames().getInfo()\<close> and
  \<^verbatim>\<open>coll.select(bands_to_fetch).getRegion(point, scale).getInfo()\<close>; each returns
  a value or raises. Building the collection and the point sends nothing.
\<close>

record query =
  q_lat :: real
  q_lon :: real
  q_start :: string
  q_end :: string
  q_model :: string
  q_scenario :: string

record remote =
  coll_size :: "query \<Rightarrow> py_exn + jv"
  band_names :: "query \<Rightarrow> py_exn + jv"
  get_region :: "query \<Rightarrow> string list \<Rightarrow> py_exn + jv"

subsection \<open>Messages shown to the user\<close>

text \<open>
  One constructor for each \<^verbatim>\<open>st.warning\<close>, \<^verbatim>\<open>st.info\<close>, \<^verbatim>\<open>st.success\<close> and
  \<^verbatim>\<open>st.error\<close> of the fetcher and of the validation, with the data its text shows.
\<close>

datatype notice =
    Warn_no_images
  | Warn_size_check_failed py_exn
  | Warn_none_available
  | Info_missing_bands "string list" "string list"
  | Warn_band_check_failed py_exn
  | Warn_getRegion_failed py_exn
  | Warn_no_data
  | Warn_no_time_column
  | Success_records nat "string list"
  | Warn_no_records "string list"
  | Error_no_variable
  | Error_no_model
  | Error_no_scenario
  | Error_no_decade
  | Error_no_output_option
  | Warn_ensemble_needs_two_models

subsection \<open>Time-series fetcher (\<^verbatim>\<open>fetch_point_timeseries\<close>, lines 597-684)\<close>

text \<open>Lines 608-615: \<open>Some\<close> is the warning of an early return.\<close>

definition size_check :: "remote \<Rightarrow> query \<Rightarrow> notice option" where
  "size_check R q =
     (case coll_size R q of
        Inl e \<Rightarrow> Some (Warn_size_check_failed e)
      | Inr coll_size_v \<Rightarrow>
          (if coll_size_v = JNum 0 \<or> coll_size_v = JBool False then Some Warn_no_images
           else None))"

text \<open>
  Lines 617-630: the messages shown and \<^verbatim>\<open>bands_to_fetch\<close>, or \<open>None\<close> for the
  early return of line 624. An exception in the block leaves all requested bands.
\<close>

definition check_bands :: "remote \<Rightarrow> query \<Rightarrow> string list \<Rightarrow> notice list \<times> string list option" where
  "check_bands R q bands =
     (case band_names R q of
        Inl e \<Rightarrow> ([Warn_band_check_failed e], Some bands)
      | Inr available_bands \<Rightarrow>
          (case py_filter_in bands available_bands of
             Inl e \<Rightarrow> ([Warn_band_check_failed e], Some bands)
           | Inr bands_to_fetch \<Rightarrow>
               (if bands_to_fetch = [] then ([Warn_none_available], None)
                else if length bands_to_fetch < length bands
                then ([Info_missing_bands
                         (filter (\<lambda>b. py_contains available_bands b = Inr False) bands)
                         bands_to_fetch],
                      Some bands_to_fetch)
                else ([], Some bands_to_fetch))))"

text \<open>Lines 656-660: the date of a row, \<open>None\<close> when the \<^verbatim>\<open>try\<close> block raises.\<close>

definition row_date :: "lib \<Rightarrow> jv \<Rightarrow> nat \<Rightarrow> string option" where
  "row_date L r time_idx =
     (case py_getitem r time_idx of Inl e \<Rightarrow> None | Inr t \<Rightarrow> ms_to_date L t)"

text \<open>
  Lines 662-677, the loop over \<^verbatim>\<open>bands_to_fetch\<close> for one row; the state is
  \<^verbatim>\<open>recs\<close> and \<^verbatim>\<open>bands_found\<close>.
\<close>

fun band_loop ::
  "lib \<Rightarrow> jv \<Rightarrow> jv \<Rightarrow> string \<Rightarrow> string \<Rightarrow> string \<Rightarrow> string list
     \<Rightarrow> obs list \<times> string set \<Rightarrow> py_exn + obs list \<times> string set" where
  "band_loop L header r date_str mdl scn [] st = Inr st"
| "band_loop L header r date_str mdl scn (b # bs) (recs, bands_found) =
     (case py_contains header b of
        Inl e \<Rightarrow> Inl e
      | Inr False \<Rightarrow> band_loop L header r date_str mdl scn bs (recs, bands_found)
      | Inr True \<Rightarrow>
          (case py_index header b of
             Inl e \<Rightarrow> Inl e
           | Inr idx \<Rightarrow>
               (case py_getitem r idx of
                  Inl e \<Rightarrow> Inl e
                | Inr v \<Rightarrow>
                    (if v = JNull then band_loop L header r date_str mdl scn bs (recs, bands_found)
                     else
                       (case py_float L v of
                          Inl e \<Rightarrow> Inl e
                        | Inr x \<Rightarrow>
                            band_loop L header r date_str mdl scn bs
                              (recs @ [\<lparr>date = date_str, band = b, val = convert_units b x,
                                        model = mdl, scenario = scn\<rparr>],
                               insert b bands_found))))))"

text \<open>Lines 655-677, the loop over the rows.\<close>

fun row_loop ::
  "lib \<Rightarrow> jv \<Rightarrow> nat \<Rightarrow> string \<Rightarrow> string \<Rightarrow> string list \<Rightarrow> jv list
     \<Rightarrow> obs list \<times> string set \<Rightarrow> py_exn + obs list \<times> string set" where
  "row_loop L header time_idx mdl scn bands_to_fetch [] st = Inr st"
| "row_loop L header time_idx mdl scn bands_to_fetch (r # rs) st =
     (case row_date L r time_idx of
        None \<Rightarrow> row_loop L header time_idx mdl scn bands_to_fetch rs st
      | Some date_str \<Rightarrow>
          (case band_loop L header r date_str mdl scn bands_to_fetch st of
             Inl e \<Rightarrow> Inl e
           | Inr st' \<Rightarrow> row_loop L header time_idx mdl scn bands_to_fetch rs st'))"

text \<open>Lines 679-684.\<close>

definition finish_fetch :: "jv \<Rightarrow> string list \<Rightarrow> obs list \<times> string set \<Rightarrow> py_exn + notice \<times> frame" where
  "finish_fetch header bands_to_fetch st =
     (let df = from_records (fst st)
      in if \<not> frame_empty df
         then Inr (Success_records (length (rows df)) (sorted_list_of_set (snd st)), df)
         else (case py_filter_in bands_to_fetch header of
                 Inl e \<Rightarrow> Inl e
               | Inr present \<Rightarrow> Inr (Warn_no_records present, df)))"

text \<open>
  Lines 642-684, from the answer \<open>arr\<close> of \<^verbatim>\<open>getRegion\<close> on. \<open>Inl\<close> is an exception
  that leaves the function.
\<close>

definition region_table ::
  "lib \<Rightarrow> string list \<Rightarrow> string \<Rightarrow> string \<Rightarrow> jv \<Rightarrow> py_exn + notice \<times> frame" where
  "region_table L bands_to_fetch mdl scn arr =
     (if \<not> py_truthy arr then Inr (Warn_no_data, empty_table)
      else
        (case py_len arr of
           Inl e \<Rightarrow> Inl e
         | Inr n \<Rightarrow>
             (if n < 2 then Inr (Warn_no_data, empty_table)
              else
                (case py_getitem arr 0 of
                   Inl e \<Rightarrow> Inl e
                 | Inr header \<Rightarrow>
                     (case py_rest arr of
                        Inl e \<Rightarrow> Inl e
                      | Inr rest \<Rightarrow>
                          (case py_contains header ''time'' of
                             Inl e \<Rightarrow> Inl e
                           | Inr False \<Rightarrow> Inr (Warn_no_time_column, empty_table)
                           | Inr True \<Rightarrow>
                               (case py_index header ''time'' of
                                  Inl e \<Rightarrow> Inl e
                                | Inr time_idx \<Rightarrow>
                                    (case py_iter rest of
                                       Inl e \<Rightarrow> Inl e
                                     | Inr rs \<Rightarrow>
                                         (case row_loop L header time_idx mdl scn bands_to_fetch rs ([], {}) of
                                            Inl e \<Rightarrow> Inl e
                                          | Inr st \<Rightarrow> finish_fetch header bands_to_fetch st)))))))))"

text \<open>Lines 601-605: the point and the filtered collection.\<close>

definition make_query :: "real \<Rightarrow> real \<Rightarrow> string \<Rightarrow> string \<Rightarrow> string \<Rightarrow> string \<Rightarrow> query" where
  "make_query lat lon start end mdl scn =
     \<lparr>q_lat = lat, q_lon = lon, q_start = start, q_end = end, q_model = mdl, q_scenario = scn\<rparr>"

definition fetch_point_timeseries ::
  "lib \<Rightarrow> remote \<Rightarrow> real \<Rightarrow> real \<Rightarrow> string \<Rightarrow> string \<Rightarrow> string list \<Rightarrow> string \<Rightarrow> string
     \<Rightarrow> py_exn + notice list \<times> frame" where
  "fetch_point_timeseries L R lat lon start end bands mdl scn =
     (let q = make_query lat lon start end mdl scn
      in case size_check R q of
           Some w \<Rightarrow> Inr ([w], empty_table)
         | None \<Rightarrow>
             (case check_bands R q bands of
                (ns, None) \<Rightarrow> Inr (ns, empty_table)
              | (ns, Some bands_to_fetch) \<Rightarrow>
                  (case get_region R q bands_to_fetch of
                     Inl e \<Rightarrow> Inr (ns @ [Warn_getRegion_failed e], empty_table)
                   | Inr arr \<Rightarrow>
                       (case region_table L bands_to_fetch mdl scn arr of
                          Inl e \<Rightarrow> Inl e
                        | Inr (w, df) \<Rightarrow> Inr (ns @ [w], df)))))"

section \<open>The fetch sweep, the ensemble mean and the download files\<close>

subsection \<open>Constants of the program\<close>

definition AVAILABLE_BANDS :: "string list" where
  "AVAILABLE_BANDS =
     [''tas'', ''tasmax'', ''tasmin'', ''pr'', ''hurs'', ''huss'', ''rsds'', ''rlds'', ''sfcWind'']"

definition KNOWN_MODELS :: "string list" where
  "KNOWN_MODELS =
     [''ACCESS-ESM1-5'', ''CNRM-CM6-1'', ''EC-Earth3'', ''MPI-ESM1-2-LR'', ''MRI-ESM2-0'',
      ''CanESM5'', ''GFDL-ESM4'', ''IPSL-CM6A-LR'', ''NorESM2-LM'', ''UKESM1-0-LL'']"

text \<open>
  \<^verbatim>\<open>DECADES\<close> (lines 142-145), for \<^verbatim>\<open>y in range(1950, 2100, 10)\<close>; every such
  \<open>y\<close> has four digits.
\<close>

definition decade_entry :: "nat \<Rightarrow> string \<times> string \<times> string" where
  "decade_entry y =
     (pad_digits 4 y @ ''s ('' @ pad_digits 4 y @ ''-01-01 to '' @ pad_digits 4 (y + 9) @ ''-12-31)'',
      pad_digits 4 y @ ''-01-01'', pad_digits 4 (y + 9) @ ''-12-31'')"

definition DECADES :: "(string \<times> string \<times> string) list" where
  "DECADES = map (\<lambda>i. decade_entry (1950 + 10 * i)) [0..<15]"

text \<open>\<^verbatim>\<open>[d[k] for k in keys]\<close> on a dictionary given as its items.\<close>

fun lookup_all :: "(string \<times> 'v) list \<Rightarrow> string list \<Rightarrow> py_exn + 'v list" where
  "lookup_all d [] = Inr []"
| "lookup_all d (k # ks) =
     (case map_of d k of
        None \<Rightarrow> Inl KeyError
      | Some v \<Rightarrow> (case lookup_all d ks of Inl e \<Rightarrow> Inl e | Inr vs \<Rightarrow> Inr (v # vs)))"

subsection \<open>Frames: concatenation, sorting, grouping\<close>

text \<open>
  \<^verbatim>\<open>pd.concat(frames, ignore_index=True)\<close>: the columns in the order of their first
  appearance, the rows one frame after the other; \<^verbatim>\<open>ValueError\<close> when there is
  nothing to concatenate.
\<close>

definition union_columns :: "string list list \<Rightarrow> string list" where
  "union_columns css = foldl (\<lambda>acc cs. acc @ filter (\<lambda>c. c \<notin> set acc) cs) [] css"

definition concat_frames :: "frame list \<Rightarrow> py_exn + frame" where
  "concat_frames fs =
     (if fs = [] then Inl ValueError
      else Inr \<lparr>columns = union_columns (map columns fs), rows = concat (map rows fs)\<rparr>)"

text \<open>\<^verbatim>\<open>df.sort_values(["band", "model", "scenario", "date"], inplace=True)\<close>\<close>

definition sort_columns :: "obs \<Rightarrow> string \<times> string \<times> string \<times> string" where
  "sort_columns r = (band r, model r, scenario r, date r)"

definition sort_values :: "frame \<Rightarrow> frame" where
  "sort_values df = df\<lparr>rows := sort_key sort_columns (rows df)\<rparr>"

text \<open>The mean of a group, \<^verbatim>\<open>.mean()\<close>; a group is never empty.\<close>

definition mean :: "real list \<Rightarrow> real" where
  "mean xs = sum_list xs / real (length xs)"

subsection \<open>Ensemble aggregator (lines 888-907)\<close>

text \<open>
  Lines 895-903 for one scenario and one band: \<open>None\<close> when \<^verbatim>\<open>subset.empty\<close>.
  \<^verbatim>\<open>groupby("date")["value"].mean().reset_index()\<close> has the columns
  \<^verbatim>\<open>date, value\<close>, one row per date in increasing order; the three assignments add
  the columns \<^verbatim>\<open>band, model, scenario\<close> after them.
\<close>

definition ensemble_for :: "frame \<Rightarrow> string \<Rightarrow> string \<Rightarrow> frame option" where
  "ensemble_for all_data scn bnd =
     (let subset = filter (\<lambda>r. scenario r = scn \<and> band r = bnd) (rows all_data)
      in if subset = [] then None
         else Some
           \<lparr>columns = [''date'', ''value'', ''band'', ''model'', ''scenario''],
            rows = map (\<lambda>d. \<lparr>date = d, band = bnd,
                               val = mean (map val (filter (\<lambda>r. date r = d) subset)),
                               model = ''ENSEMBLE-MEAN'', scenario = scn\<rparr>)
                     (sort (remdups (map date subset)))\<rparr>)"

text \<open>Lines 890-903: the loops over the selected scenarios and bands.\<close>

definition ensemble_frames :: "frame \<Rightarrow> string list \<Rightarrow> string list \<Rightarrow> frame list" where
  "ensemble_frames all_data scens bands =
     concat (map (\<lambda>scn. concat (map (\<lambda>bnd.
        (case ensemble_for all_data scn bnd of None \<Rightarrow> [] | Some e \<Rightarrow> [e])) bands)) scens)"

subsection \<open>The fetch sweep of \<^verbatim>\<open>main\<close> (lines 764-927)\<close>

record selection =
  sel_lat :: real
  sel_lon :: real
  decades :: "string list"
  sel_bands :: "string list"
  sel_models :: "string list"
  sel_scen :: "string list"
  include_individual :: bool
  include_ensemble :: bool

text \<open>Lines 766-783: \<open>Some\<close> is the message shown before \<^verbatim>\<open>return\<close>.\<close>

definition validate :: "selection \<Rightarrow> notice option" where
  "validate sel =
     (if sel_bands sel = [] then Some Error_no_variable
      else if sel_models sel = [] then Some Error_no_model
      else if sel_scen sel = [] then Some Error_no_scenario
      else if decades sel = [] then Some Error_no_decade
      else if \<not> include_individual sel \<and> \<not> include_ensemble sel then Some Error_no_output_option
      else if include_ensemble sel \<and> length (sel_models sel) < 2
      then Some Warn_ensemble_needs_two_models
      else None)"

text \<open>
  Lines 794-803 read \<^verbatim>\<open>BAND_NAMES[b]\<close>, \<^verbatim>\<open>BAND_UNITS[b]\<close> and
  \<^verbatim>\<open>MODEL_INFO[m]\<close> for the selected bands and models; the keys of these
  dictionaries are \<^verbatim>\<open>AVAILABLE_BANDS\<close> and \<^verbatim>\<open>KNOWN_MODELS\<close>.
\<close>

definition show_configuration :: "selection \<Rightarrow> py_exn option" where
  "show_configuration sel =
     (if list_all (\<lambda>b. b \<in> set AVAILABLE_BANDS) (sel_bands sel)
         \<and> list_all (\<lambda>m. m \<in> set KNOWN_MODELS) (sel_models sel)
      then None else Some KeyError)"

datatype skip =
    Skip_incompatible string string string
  | Skip_no_data string string string string

text \<open>
  The state of the sweep: the fetcher invocations made so far, in order,
  \<^verbatim>\<open>all_frames\<close>, \<^verbatim>\<open>error_log\<close>, the messages the fetcher showed, and the
  exception that ended the sweep, if any. The progress bar is not modelled.
\<close>

record sweep =
  calls :: "(query \<times> string list) list"
  all_frames :: "frame list"
  error_log :: "skip list"
  shown :: "notice list"
  raised :: "py_exn option"

definition sweep_start :: sweep where
  "sweep_start = \<lparr>calls = [], all_frames = [], error_log = [], shown = [], raised = None\<rparr>"

text \<open>Lines 824-835: the loop over the models for one scenario and one clamped decade.\<close>

fun model_loop ::
  "lib \<Rightarrow> remote \<Rightarrow> selection \<Rightarrow> string \<Rightarrow> string \<Rightarrow> string \<Rightarrow> string list \<Rightarrow> sweep \<Rightarrow> sweep" where
  "model_loop L R sel scn s_adj e_adj [] st = st"
| "model_loop L R sel scn s_adj e_adj (m # ms) st =
     (let q = make_query (sel_lat sel) (sel_lon sel) s_adj e_adj m scn;
          st1 = st\<lparr>calls := calls st @ [(q, sel_bands sel)]\<rparr>
      in case fetch_point_timeseries L R (sel_lat sel) (sel_lon sel) s_adj e_adj (sel_bands sel) m scn of
           Inl e \<Rightarrow> st1\<lparr>raised := Some e\<rparr>
         | Inr (ns, df) \<Rightarrow>
             model_loop L R sel scn s_adj e_adj ms
               (if \<not> frame_empty df
                then st1\<lparr>all_frames := all_frames st1 @ [df], shown := shown st1 @ ns\<rparr>
                else st1\<lparr>error_log := error_log st1 @ [Skip_no_data m scn s_adj e_adj],
                         shown := shown st1 @ ns\<rparr>))"

text \<open>Lines 817-835: the loop over the date ranges for one scenario.\<close>

fun decade_loop ::
  "lib \<Rightarrow> remote \<Rightarrow> selection \<Rightarrow> string \<Rightarrow> (string \<times> string) list \<Rightarrow> sweep \<Rightarrow> sweep" where
  "decade_loop L R sel scn [] st = st"
| "decade_loop L R sel scn ((start, end) # ds) st =
     (case clamp_dates_for_scenario start end scn of
        Inl e \<Rightarrow> st\<lparr>raised := Some e\<rparr>
      | Inr None \<Rightarrow>
          decade_loop L R sel scn ds (st\<lparr>error_log := error_log st @ [Skip_incompatible scn start end]\<rparr>)
      | Inr (Some (s_adj, e_adj)) \<Rightarrow>
          (let st' = model_loop L R sel scn s_adj e_adj (sel_models sel) st
           in if raised st' = None then decade_loop L R sel scn ds st' else st'))"

text \<open>Lines 816-835: the loop over the scenarios.\<close>

fun scenario_loop ::
  "lib \<Rightarrow> remote \<Rightarrow> selection \<Rightarrow> (string \<times> string) list \<Rightarrow> string list \<Rightarrow> sweep \<Rightarrow> sweep" where
  "scenario_loop L R sel date_ranges [] st = st"
| "scenario_loop L R sel date_ranges (scn # scns) st =
     (let st' = decade_loop L R sel scn date_ranges st
      in if raised st' = None then scenario_loop L R sel date_ranges scns st' else st')"

text \<open>
  Lines 876-916: \<^verbatim>\<open>all_data\<close> and \<^verbatim>\<open>out\<close> from the frames of the sweep.
\<close>

definition build_output :: "selection \<Rightarrow> frame list \<Rightarrow> py_exn + frame \<times> frame" where
  "build_output sel frames =
     (case concat_frames frames of
        Inl e \<Rightarrow> Inl e
      | Inr all_data0 \<Rightarrow>
          (let all_data = sort_values all_data0;
               output_frames1 = (if include_individual sel then [all_data] else [])
           in case
                (if include_ensemble sel \<and> length (sel_models sel) > 1
                 then
                   (let efs = ensemble_frames all_data (sel_scen sel) (sel_bands sel)
                    in if efs \<noteq> []
                       then (case concat_frames efs of
                               Inl e \<Rightarrow> Inl e
                             | Inr ensemble_df \<Rightarrow> Inr (output_frames1 @ [ensemble_df]))
                       else Inr output_frames1)
                 else Inr output_frames1)
              of
                Inl e \<Rightarrow> Inl e
              | Inr output_frames \<Rightarrow>
                  (case concat_frames output_frames of
                     Inl e \<Rightarrow> Inl e
                   | Inr out \<Rightarrow> Inr (all_data, sort_values out))))"

datatype outcome =
    Aborted notice
  | Raised py_exn
  | No_data
  | Ready frame frame

record run =
  run_calls :: "(query \<times> string list) list"
  run_log :: "skip list"
  run_outcome :: outcome

text \<open>
  The branch of \<^verbatim>\<open>main\<close> taken when the fetch button was pressed. \<open>Ready\<close> holds
  \<^verbatim>\<open>all_data\<close> and the table \<^verbatim>\<open>out\<close> that is cached and handed to the download
  section. The page header above it (the map and the name of the place, looked up by
  \<^verbatim>\<open>get_location_name\<close>) is drawn before this branch and is not part of it.
\<close>

definition main_fetch :: "lib \<Rightarrow> remote \<Rightarrow> selection \<Rightarrow> run" where
  "main_fetch L R sel =
     (case validate sel of
        Some msg \<Rightarrow> \<lparr>run_calls = [], run_log = [], run_outcome = Aborted msg\<rparr>
      | None \<Rightarrow>
          (case show_configuration sel of
             Some e \<Rightarrow> \<lparr>run_calls = [], run_log = [], run_outcome = Raised e\<rparr>
           | None \<Rightarrow>
               (case lookup_all DECADES (decades sel) of
                  Inl e \<Rightarrow> \<lparr>run_calls = [], run_log = [], run_outcome = Raised e\<rparr>
                | Inr date_ranges \<Rightarrow>
                    (let st = scenario_loop L R sel date_ranges (sel_scen sel) sweep_start
                     in \<lparr>run_calls = calls st, run_log = error_log st,
                         run_outcome =
                           (case raised st of
                              Some e \<Rightarrow> Raised e
                            | None \<Rightarrow>
                                (if all_frames st = [] then No_data
                                 else (case build_output sel (all_frames st) of
                                         Inl e \<Rightarrow> Raised e
                                       | Inr (all_data, out) \<Rightarrow> Ready all_data out)))\<rparr>))))"

subsection \<open>Output packager (lines 983-1100)\<close>

text \<open>
  Of a download file only its text (\<^verbatim>\<open>"data"\<close>) is modelled, not the file name, the
  label and the size. The text is a list of bytes: the characters beyond ASCII in the
  metadata are written as their UTF-8 bytes.
\<close>

definition newline :: char where
  "newline = CHR 0x0A"

definition dquote :: char where
  "dquote = CHR 0x22"

definition degree_sign :: string where
  "degree_sign = [CHR 0xC2, CHR 0xB0]"

definition superscript_two :: string where
  "superscript_two = [CHR 0xC2, CHR 0xB2]"

definition bullet :: string where
  "bullet = [CHR 0xE2, CHR 0x80, CHR 0xA2]"

text \<open>\<^verbatim>\<open>sep.join(xs)\<close>\<close>

fun join :: "string \<Rightarrow> string list \<Rightarrow> string" where
  "join sep [] = []"
| "join sep [x] = x"
| "join sep (x # y # ys) = x @ sep @ join sep (y # ys)"

text \<open>The decimal text of a natural number, \<^verbatim>\<open>f"{n}"\<close>.\<close>

fun str_nat :: "nat \<Rightarrow> string" where
  "str_nat n = (if n < 10 then [digit_char n] else str_nat (n div 10) @ [digit_char (n mod 10)])"

text \<open>
  What \<^verbatim>\<open>create_metadata\<close> reads from its surroundings: the coordinates, the name of
  the place and the text of \<^verbatim>\<open>pd.Timestamp.now().strftime(...)\<close>.
\<close>

record page =
  page_lat :: real
  page_lon :: real
  location_name :: string
  generated :: string

definition metadata_lines :: "lib \<Rightarrow> page \<Rightarrow> string list \<Rightarrow> string list" where
  "metadata_lines L P models_included =
     [''# ============================================================================'',
      ''# NASA/GDDP-CMIP6 Climate Data Download'',
      ''# ============================================================================'',
      ''# Location: '' @ float_repr L (page_lat P) @ degree_sign @ ''N, ''
         @ float_repr L (page_lon P) @ degree_sign @ ''E'',
      ''# Place: '' @ location_name P,
      ''# Generated: '' @ generated P,
      ''# '',
      ''# DATA COLUMNS:'',
      ''#   date      - Date in YYYY-MM-DD format'',
      ''#   band      - Climate variable (see VARIABLES section below)'',
      ''#   model     - Climate model name (or ENSEMBLE-MEAN)'',
      ''#   scenario  - Emissions scenario (historical, ssp245, ssp585)'',
      ''#   value     - Measured value in units specified below'',
      ''# '',
      ''# VARIABLES & UNITS (converted from raw NASA data):'',
      ''#   tas       - Daily Mean Temperature ('' @ degree_sign @ ''C)'',
      ''#   tasmax    - Daily Maximum Temperature ('' @ degree_sign @ ''C)'',
      ''#   tasmin    - Daily Minimum Temperature ('' @ degree_sign @ ''C)'',
      ''#   pr        - Precipitation (mm/day)'',
      ''#   hurs      - Near-Surface Relative Humidity (%)'',
      ''#   huss      - Near-Surface Specific Humidity (kg/kg)'',
      ''#   rsds      - Surface Downwelling Shortwave Radiation (W/m'' @ superscript_two @ '')'',
      ''#   rlds      - Surface Downwelling Longwave Radiation (W/m'' @ superscript_two @ '')'',
      ''#   sfcWind   - Near-Surface Wind Speed (m/s)'',
      ''# '',
      ''# SCENARIOS:'',
      ''#   historical - Historical observations (1950-2014)'',
      ''#   ssp245     - SSP2-4.5: Medium emissions / Current policies trajectory'',
      ''#   ssp585     - SSP5-8.5: High emissions / Business as usual'',
      ''# '']
     @ (if models_included \<noteq> [] then
          (if ''ENSEMBLE-MEAN'' \<in> set models_included \<and> length models_included > 1 then
             (let actual_models = filter (\<lambda>m. m \<noteq> ''ENSEMBLE-MEAN'') models_included
              in [''# MODELS:'',
                  ''#   This file includes '' @ str_nat (length actual_models) @ '' climate models:'']
                 @ map (\<lambda>m. ''#     '' @ bullet @ '' '' @ m) actual_models
                 @ [''# '',
                    ''#   ENSEMBLE-MEAN is the arithmetic average across all models'',
                    ''#   for each date, variable, and scenario combination.'',
                    ''# ''])
           else if length models_included = 1 \<and> hd models_included \<noteq> ''ENSEMBLE-MEAN'' then
             [''# MODEL:'', ''#   '' @ hd models_included, ''# '']
           else if models_included = [''ENSEMBLE-MEAN''] then
             [''# MODEL:'', ''#   ENSEMBLE-MEAN (multi-model average)'', ''# '']
           else [])
        else [])
     @ [''# DATA SOURCE:'',
        ''#   NASA Earth Exchange Global Daily Downscaled Climate Projections'',
        ''#   (NEX-GDDP-CMIP6)'',
        ''#   Resolution: 0.25'' @ degree_sign @ '' (~25 km)'',
        ''#   More info: https://www.nccs.nasa.gov/services/data-collections/land-based-products/nex-gddp-cmip6'',
        ''# ============================================================================'',
        ''#'']"

text \<open>\<^verbatim>\<open>create_metadata\<close> (lines 994-1065)\<close>

definition create_metadata :: "lib \<Rightarrow> page \<Rightarrow> string list \<Rightarrow> string" where
  "create_metadata L P models_included = join [newline] (metadata_lines L P models_included) @ [newline]"

text \<open>
  \<^verbatim>\<open>df.to_csv(index=False)\<close>: the names of the columns, then one line per row with
  the cells in the order of the columns. A text cell is quoted when it holds a comma, a
  quote or a line break (the \<^verbatim>\<open>csv\<close> module's minimal quoting), a float is written
  as Python writes it.
\<close>

definition csv_field :: "string \<Rightarrow> string" where
  "csv_field s =
     (if list_ex (\<lambda>c. c \<in> set [CHR '','', dquote, newline, CHR 0x0D]) s
      then [dquote] @ concat (map (\<lambda>c. if c = dquote then [dquote, dquote] else [c]) s) @ [dquote]
      else s)"

definition cell :: "lib \<Rightarrow> obs \<Rightarrow> string \<Rightarrow> string" where
  "cell L r col =
     (if col = ''date'' then csv_field (date r)
      else if col = ''band'' then csv_field (band r)
      else if col = ''value'' then float_repr L (val r)
      else if col = ''model'' then csv_field (model r)
      else if col = ''scenario'' then csv_field (scenario r)
      else [])"

definition csv_line :: "string list \<Rightarrow> string" where
  "csv_line cells = join '','' cells @ [newline]"

definition to_csv :: "lib \<Rightarrow> frame \<Rightarrow> string" where
  "to_csv L df =
     csv_line (map csv_field (columns df))
     @ concat (map (\<lambda>r. csv_line (map (cell L r) (columns df))) (rows df))"

text \<open>Line 991: \<^verbatim>\<open>sorted(out["model"].unique())\<close>\<close>

definition unique_models :: "frame \<Rightarrow> string list" where
  "unique_models out = sort (remdups (map model (rows out)))"

text \<open>Lines 1072-1078: the text of the file of one model.\<close>

definition model_file :: "lib \<Rightarrow> page \<Rightarrow> frame \<Rightarrow> string \<Rightarrow> string" where
  "model_file L P out m =
     (let model_data = out\<lparr>rows := filter (\<lambda>r. model r = m) (rows out)\<rparr>
      in create_metadata L P [m] @ to_csv L model_data)"

text \<open>Lines 1091-1093: the text of the combined file.\<close>

definition combined_file :: "lib \<Rightarrow> page \<Rightarrow> frame \<Rightarrow> string" where
  "combined_file L P out = create_metadata L P (unique_models out) @ to_csv L out"

text \<open>Lines 1068-1100: \<^verbatim>\<open>download_files\<close>, as the list of its items.\<close>

definition download_files :: "lib \<Rightarrow> page \<Rightarrow> frame \<Rightarrow> (string \<times> string) list" where
  "download_files L P out =
     map (\<lambda>m. (m, model_file L P out m)) (unique_models out)
     @ [(''_combined'', combined_file L P out)]"

subsection \<open>A reader of the documented file format\<close>

text \<open>
  Modelled from the spec: the repository has no reader of its download files. This one
  reads the format the specification documents: the lines that start with the comment
  marker are the metadata block, the first line after them is the header row, and every
  further line is a data row \<^verbatim>\<open>date,band,value,model,scenario\<close>.
\<close>

fun split_on :: "char \<Rightarrow> string \<Rightarrow> string list" where
  "split_on sep [] = [[]]"
| "split_on sep (c # cs) =
     (case split_on sep cs of
        [] \<Rightarrow> [[c]]
      | w # ws \<Rightarrow> (if c = sep then [] # w # ws else (c # w) # ws))"

definition text_lines :: "string \<Rightarrow> string list" where
  "text_lines t = butlast (split_on newline t)"

definition read_row :: "lib \<Rightarrow> string \<Rightarrow> obs option" where
  "read_row L l =
     (case split_on CHR '','' l of
        [d, b, v, m, s] \<Rightarrow>
          (case float_of_str L v of
             None \<Rightarrow> None
           | Some x \<Rightarrow> Some \<lparr>date = d, band = b, val = x, model = m, scenario = s\<rparr>)
      | _ \<Rightarrow> None)"

fun read_rows :: "lib \<Rightarrow> string list \<Rightarrow> obs list option" where
  "read_rows L [] = Some []"
| "read_rows L (l # ls) =
     (case read_row L l of
        None \<Rightarrow> None
      | Some r \<Rightarrow> (case read_rows L ls of None \<Rightarrow> None | Some rs \<Rightarrow> Some (r # rs)))"

definition read_file :: "lib \<Rightarrow> string \<Rightarrow> obs list option" where
  "read_file L t =
     (case dropWhile (\<lambda>l. take 1 l = ''#'') (text_lines t) of
        [] \<Rightarrow> None
      | header_row # data_rows \<Rightarrow> read_rows L data_rows)"

subsection \<open>The ensemble mean, as the specification words it\<close>

text \<open>
  For a scenario, a band and a date: the rows of the combined table for them, the models
  that have such a row, the value a model reports, and the arithmetic mean of these values
  over those models. \<open>emitted\<close> is every record the aggregator produces, in order.
\<close>

definition group_rows :: "frame \<Rightarrow> string \<Rightarrow> string \<Rightarrow> string \<Rightarrow> obs list" where
  "group_rows T s b d = filter (\<lambda>r. scenario r = s \<and> band r = b \<and> date r = d) (rows T)"

definition models_at :: "frame \<Rightarrow> string \<Rightarrow> string \<Rightarrow> string \<Rightarrow> string set" where
  "models_at T s b d = set (map model (group_rows T s b d))"

definition value_of :: "frame \<Rightarrow> string \<Rightarrow> string \<Rightarrow> string \<Rightarrow> string \<Rightarrow> real" where
  "value_of T s b d m =
     (case find (\<lambda>r. model r = m) (group_rows T s b d) of Some r \<Rightarrow> val r | None \<Rightarrow> 0)"

definition ensemble_mean_spec :: "frame \<Rightarrow> string \<Rightarrow> string \<Rightarrow> string \<Rightarrow> real" where
  "ensemble_mean_spec T s b d =
     (\<Sum>m\<in>models_at T s b d. value_of T s b d m) / real (card (models_at T s b d))"

definition emitted :: "frame \<Rightarrow> string list \<Rightarrow> string list \<Rightarrow> obs list" where
  "emitted T scens bands = concat (map rows (ensemble_frames T scens bands))"

definition record_key :: "obs \<Rightarrow> string \<times> string \<times> string \<times> string" where
  "record_key r = (date r, band r, model r, scenario r)"

text \<open>The rows the aggregator emits for one scenario and one band.\<close>

definition ens_rows :: "frame \<Rightarrow> string \<Rightarrow> string \<Rightarrow> obs list" where
  "ens_rows T s b = (case ensemble_for T s b of None \<Rightarrow> [] | Some e \<Rightarrow> rows e)"

subsection \<open>The order of the tidy table, as the specification words it\<close>

text \<open>
  A record comes before another, or at the same place, when its band is smaller in the
  order of strings, or the bands are equal and its model is smaller, or these are equal and
  its scenario is smaller, or these are equal and its date is not larger. A table is in
  order when every record comes before all the records after it.
\<close>

definition record_le :: "obs \<Rightarrow> obs \<Rightarrow> bool" where
  "record_le a b \<longleftrightarrow>
     band a < band b
     \<or> (band a = band b
        \<and> (model a < model b
           \<or> (model a = model b
              \<and> (scenario a < scenario b
                 \<or> (scenario a = scenario b \<and> date a \<le> date b)))))"

definition in_order :: "frame \<Rightarrow> bool" where
  "in_order df = sorted_wrt record_le (rows df)"

subsection \<open>The records of a fetch, as the specification words them\<close>

text \<open>
  An answer of \<^verbatim>\<open>getRegion\<close> is a table when it is a list of a header row and data
  rows, and every data row is a list that holds a number within the range of a float or
  null under each fetched band the header names.
\<close>

definition cell_ok :: "jv \<Rightarrow> bool" where
  "cell_ok c = (case c of JNull \<Rightarrow> True | JNum x \<Rightarrow> \<bar>x\<bar> < float_limit | _ \<Rightarrow> False)"

definition row_ok :: "jv list \<Rightarrow> string list \<Rightarrow> jv \<Rightarrow> bool" where
  "row_ok hs bs r =
     (case r of
        JList cells \<Rightarrow>
          list_all (\<lambda>b. case find_item b hs of
                           None \<Rightarrow> True
                         | Some i \<Rightarrow> i < length cells \<and> cell_ok (cells ! i)) bs
      | _ \<Rightarrow> False)"

definition table_shaped :: "string list \<Rightarrow> jv \<Rightarrow> bool" where
  "table_shaped bs arr =
     (case arr of
        JList (JList hs # rs) \<Rightarrow> list_all (row_ok hs bs) rs
      | _ \<Rightarrow> False)"

text \<open>
  The answers after which the fetcher gives up: nothing, fewer than two entries, or a
  header row without the \<^verbatim>\<open>time\<close> column.
\<close>

definition unusable :: "jv \<Rightarrow> bool" where
  "unusable arr =
     (\<not> py_truthy arr
      \<or> (case arr of
            JList xs \<Rightarrow>
              length xs < 2 \<or> (case hd xs of JList hs \<Rightarrow> JStr ''time'' \<notin> set hs | _ \<Rightarrow> False)
          | _ \<Rightarrow> False))"

text \<open>
  The raw value the remote returned for a band in a row, \<open>None\<close> when it is null or
  the header does not name the band.
\<close>

definition band_value :: "jv list \<Rightarrow> jv \<Rightarrow> string \<Rightarrow> real option" where
  "band_value hs r b =
     (case find_item b hs of
        None \<Rightarrow> None
      | Some i \<Rightarrow> (case py_getitem r i of Inr (JNum x) \<Rightarrow> Some x | _ \<Rightarrow> None))"

text \<open>
  One observation record for each pair of a row with a date and a fetched band with a
  value that is not null, row by row and band by band, the value converted.
\<close>

definition row_observations :: "jv list \<Rightarrow> string list \<Rightarrow> string \<Rightarrow> string \<Rightarrow> string \<Rightarrow> jv \<Rightarrow> obs list" where
  "row_observations hs bs mdl scn d r =
     concat (map (\<lambda>b. case band_value hs r b of
                         None \<Rightarrow> []
                       | Some x \<Rightarrow> [\<lparr>date = d, band = b, val = convert_units b x,
                                      model = mdl, scenario = scn\<rparr>]) bs)"

definition observations ::
  "lib \<Rightarrow> jv list \<Rightarrow> nat \<Rightarrow> string list \<Rightarrow> string \<Rightarrow> string \<Rightarrow> jv list \<Rightarrow> obs list" where
  "observations L hs time_idx bs mdl scn rs =
     concat (map (\<lambda>r. case row_date L r time_idx of
                         None \<Rightarrow> []
                       | Some d \<Rightarrow> row_observations hs bs mdl scn d r) rs)"

text \<open>The message that ends a fetch with the records \<open>recs\<close>.\<close>

definition closing_notice :: "jv list \<Rightarrow> string list \<Rightarrow> obs list \<Rightarrow> notice" where
  "closing_notice hs bs recs =
     (if recs \<noteq> [] then Success_records (length recs) (sorted_list_of_set (set (map band recs)))
      else Warn_no_records (filter (\<lambda>b. JStr b \<in> set hs) bs))"

text \<open>
  The \<^verbatim>\<open>getRegion\<close> request for the bands \<open>bs\<close> fails or its answer is
  unusable; it fails or its answer is unusable or a table.
\<close>

definition region_unusable :: "remote \<Rightarrow> query \<Rightarrow> string list \<Rightarrow> bool" where
  "region_unusable R q bs = (case get_region R q bs of Inl e \<Rightarrow> True | Inr arr \<Rightarrow> unusable arr)"

definition region_tabular :: "remote \<Rightarrow> query \<Rightarrow> string list \<Rightarrow> bool" where
  "region_tabular R q bs =
     (case get_region R q bs of Inl e \<Rightarrow> True | Inr arr \<Rightarrow> unusable arr \<or> table_shaped bs arr)"

text \<open>
  The outcomes of the remote calls after which the fetcher returns the empty table: the
  size request fails or reports no image; the band-names request answers with a list that
  names none of the requested bands; the \<^verbatim>\<open>getRegion\<close> request, made for the
  requested bands the list names, or for all requested bands when the band-names request
  failed, fails or has an unusable answer.
\<close>

definition degrades :: "remote \<Rightarrow> query \<Rightarrow> string list \<Rightarrow> bool" where
  "degrades R q bands =
     (case coll_size R q of
        Inl e \<Rightarrow> True
      | Inr n \<Rightarrow>
          n = JNum 0 \<or> n = JBool False
          \<or> (case band_names R q of
                Inl e \<Rightarrow> region_unusable R q bands
              | Inr (JList avail) \<Rightarrow>
                  filter (\<lambda>b. JStr b \<in> set avail) bands = []
                  \<or> region_unusable R q (filter (\<lambda>b. JStr b \<in> set avail) bands)
              | Inr _ \<Rightarrow> False))"

text \<open>
  The band-names request answers with a list of names or fails, and the
  \<^verbatim>\<open>getRegion\<close> request, made for the same bands as above, fails or has an answer
  that is unusable or a table.
\<close>

definition tabular :: "remote \<Rightarrow> query \<Rightarrow> string list \<Rightarrow> bool" where
  "tabular R q bands =
     (case band_names R q of
        Inl e \<Rightarrow> region_tabular R q bands
      | Inr (JList avail) \<Rightarrow>
          filter (\<lambda>b. JStr b \<in> set avail) bands = []
          \<or> region_tabular R q (filter (\<lambda>b. JStr b \<in> set avail) bands)
      | Inr _ \<Rightarrow> False)"

subsection \<open>The documented file format\<close>

text \<open>
  The lines of a text, each ended by a line break; a text cell that \<^verbatim>\<open>to_csv\<close> writes
  as it is; the column order of the tidy table; the data row of a record in the documented
  order; a record whose row can be read back: plain text cells, and a float whose text
  reads back as the same float (the precision of the formatting is not modelled); a
  page whose metadata lines hold no line break.
\<close>

definition unlines :: "string list \<Rightarrow> string" where
  "unlines ls = concat (map (\<lambda>l. l @ [newline]) ls)"

definition plain :: "string \<Rightarrow> bool" where
  "plain s \<longleftrightarrow> \<not> list_ex (\<lambda>c. c \<in> set [CHR '','', dquote, newline, CHR 0x0D]) s"

definition record_columns :: "string list" where
  "record_columns = [''date'', ''band'', ''value'', ''model'', ''scenario'']"

definition row_text :: "lib \<Rightarrow> obs \<Rightarrow> string" where
  "row_text L r = join '','' [date r, band r, float_repr L (val r), model r, scenario r]"

definition readable :: "lib \<Rightarrow> obs \<Rightarrow> bool" where
  "readable L r \<longleftrightarrow>
     plain (date r) \<and> plain (band r) \<and> plain (model r) \<and> plain (scenario r)
     \<and> plain (float_repr L (val r)) \<and> float_of_str L (float_repr L (val r)) = Some (val r)"

definition page_ok :: "lib \<Rightarrow> page \<Rightarrow> bool" where
  "page_ok L P \<longleftrightarrow>
     newline \<notin> set (location_name P) \<and> newline \<notin> set (generated P)
     \<and> newline \<notin> set (float_repr L (page_lat P)) \<and> newline \<notin> set (float_repr L (page_lon P))"

subsection \<open>An example catalog\<close>

text \<open>
  A small instance for evaluating the definitions: a library that knows one timestamp
  (1577836800000 ms is 2020-01-01) and three floats, and a catalog in which every model has
  one image with every requested band, 283.15 K from \<open>CanESM5\<close> and 293.15 K from the
  other models, and 0.0009765625 kg/m2/s (84.375 mm/day) under \<open>pr\<close>. These
  numbers convert without rounding in floating point as well.
\<close>

definition example_lib :: lib where
  "example_lib =
     \<lparr>ms_to_date = (\<lambda>t. if t = JNum 1577836800000 then Some ''2020-01-01'' else None),
      float_of_str = (\<lambda>s. if s = ''10.0'' then Some 10 else if s = ''20.0'' then Some 20
                           else if s = ''15.0'' then Some 15 else None),
      float_repr = (\<lambda>x. if x = 10 then ''10.0'' else if x = 20 then ''20.0''
                         else if x = 15 then ''15.0'' else ''nan'')\<rparr>"

definition example_region :: "query \<Rightarrow> string list \<Rightarrow> jv" where
  "example_region q bs =
     JList [JList ([JStr ''id'', JStr ''longitude'', JStr ''latitude'', JStr ''time''] @ map JStr bs),
            JList ([JStr ''20200101'', JNum (q_lon q), JNum (q_lat q), JNum 1577836800000]
                   @ map (\<lambda>b. JNum (if b = ''pr'' then 0.0009765625
                                      else if q_model q = ''CanESM5'' then 283.15 else 293.15)) bs)]"

definition example_remote :: remote where
  "example_remote =
     \<lparr>coll_size = (\<lambda>q. Inr (JNum 3653)),
      band_names = (\<lambda>q. Inr (JList (map JStr [''tas'', ''tasmax'', ''pr'']))),
      get_region = (\<lambda>q bs. Inr (example_region q bs))\<rparr>"

definition example_selection :: selection where
  "example_selection =
     \<lparr>sel_lat = 51.5, sel_lon = 0, decades = [''2020s (2020-01-01 to 2029-12-31)''],
      sel_bands = [''tas''], sel_models = [''CanESM5'', ''EC-Earth3''], sel_scen = [''ssp245''],
      include_individual = True, include_ensemble = True\<rparr>"

definition example_page :: page where
  "example_page =
     \<lparr>page_lat = 51.5, page_lon = 0, location_name = ''London'', generated = ''2025-01-01 00:00:00''\<rparr>"

definition example_row :: "string \<Rightarrow> real \<Rightarrow> obs" where
  "example_row m v = \<lparr>date = ''2020-01-01'', band = ''tas'', val = v, model = m, scenario = ''ssp245''\<rparr>"

definition example_frame :: "obs list \<Rightarrow> frame" where
  "example_frame rs = \<lparr>columns = [''date'', ''band'', ''value'', ''model'', ''scenario''], rows = rs\<rparr>"

text \<open>The example catalog with a band-names request that fails.\<close>

definition band_names_fail :: remote where
  "band_names_fail = example_remote\<lparr>band_names := (\<lambda>q. Inl RemoteError)\<rparr>"

text \<open>A catalog whose \<^verbatim>\<open>getRegion\<close> answer has a row shorter than its header.\<close>

definition short_row :: remote where
  "short_row =
     example_remote\<lparr>get_region :=
       (\<lambda>q bs. Inr (JList [JList [JStr ''time'', JStr ''tas''], JList [JNum 1577836800000]]))\<rparr>"

text \<open>
  A catalog whose \<^verbatim>\<open>getRegion\<close> answer holds a whole number beyond the range of a
  float.
\<close>

definition huge_cell :: remote where
  "huge_cell =
     example_remote\<lparr>get_region :=
       (\<lambda>q bs. Inr (JList [JList [JStr ''time'', JStr ''tas''],
                            JList [JNum 1577836800000, JNum (10 ^ 400)]]))\<rparr>"

text \<open>
  The example selection with the bands and the models picked in an order that is not the
  sorted one.
\<close>

definition unordered_selection :: selection where
  "unordered_selection =
     example_selection\<lparr>sel_bands := [''tasmax'', ''pr''], sel_models := [''EC-Earth3'', ''CanESM5'']\<rparr>"

definition unordered_row :: "string \<Rightarrow> string \<Rightarrow> real \<Rightarrow> obs" where
  "unordered_row b m v = \<lparr>date = ''2020-01-01'', band = b, val = v, model = m, scenario = ''ssp245''\<rparr>"

text \<open>The example catalog with a size request that fails.\<close>

definition size_fail :: remote where
  "size_fail = example_remote\<lparr>coll_size := (\<lambda>q. Inl RemoteError)\<rparr>"

text \<open>The example selection without the individual models, and the table it yields.\<close>

definition ensemble_only :: selection where
  "ensemble_only = example_selection\<lparr>include_individual := False\<rparr>"

definition ensemble_only_out :: frame where
  "ensemble_only_out =
     \<lparr>columns = [''date'', ''value'', ''band'', ''model'', ''scenario''],
      rows = [example_row ''ENSEMBLE-MEAN'' 15]\<rparr>"

section \<open>Properties\<close>

subsection \<open>Unit converter\<close>

text \<open>
  Claim C1. For every variable identifier and raw value, \<open>convert_units\<close> subtracts
  273.15 for the three temperature variables, multiplies by 86400 for precipitation, and
  returns the value unchanged for every other identifier, known or not.
\<close>

theorem convert_units_cases:
  "convert_units ''tas'' v = v - 273.15
   \<and> convert_units ''tasmax'' v = v - 273.15
   \<and> convert_units ''tasmin'' v = v - 273.15
   \<and> convert_units ''pr'' v = v * 86400
   \<and> (b \<notin> {''tas'', ''tasmax'', ''tasmin'', ''pr''} \<longrightarrow> convert_units b v = v)"
  by (simp add: convert_units_def)

theorem convert_units_cases_witness:
  "''hurs'' \<notin> {''tas'', ''tasmax'', ''tasmin'', ''pr''}
   \<and> convert_units ''hurs'' 55 = 55
   \<and> convert_units ''tasmax'' 300 = 300 - 273.15
   \<and> convert_units ''pr'' 2 = 2 * 86400"
  using convert_units_cases [of 300 "''hurs''"] convert_units_cases [of 55 "''hurs''"]
    convert_units_cases [of 2 "''hurs''"]
  by simp

subsection \<open>Date range clamper\<close>

lemma digit_val_char: "n < 10 \<Longrightarrow> digit_val (digit_char n) = n"
  by (simp add: digit_val_def digit_char_def)

lemma is_digit_char: "n < 10 \<Longrightarrow> is_digit (digit_char n)"
  by (simp add: is_digit_def digit_char_def)

lemma length_pad_digits: "length (pad_digits k n) = k"
  by (induction k arbitrary: n) auto

lemma digits_pad: "list_all is_digit (pad_digits k n)"
  by (induction k arbitrary: n) (auto simp: is_digit_char)

lemma digits_value_snoc: "digits_value (ds @ [c]) = 10 * digits_value ds + digit_val c"
  by (simp add: digits_value_def)

lemma digits_value_pad: "n < 10 ^ k \<Longrightarrow> digits_value (pad_digits k n) = n"
proof (induction k arbitrary: n)
  case 0
  then show ?case by (simp add: digits_value_def)
next
  case (Suc k)
  then have "n div 10 < 10 ^ k" by (simp add: less_mult_imp_div_less mult.commute)
  with Suc.IH have "digits_value (pad_digits k (n div 10)) = n div 10" by simp
  then show ?case by (simp add: digits_value_snoc digit_val_char)
qed

lemma date_le_iff:
  "Date y m d \<le> Date y' m' d' \<longleftrightarrow> y < y' \<or> (y = y' \<and> (m < m' \<or> (m = m' \<and> d \<le> d')))"
  by (auto simp: less_eq_date_def date_key_def)

lemma days_in_month_le: "days_in_month y m \<le> 31"
  by (simp add: days_in_month_def)

lemma strftime_parts:
  "length (strftime d) = 10" "strftime d ! 4 = CHR ''-''" "strftime d ! 7 = CHR ''-''"
  "take 4 (strftime d) = pad_digits 4 (year d)"
  "take 2 (drop 5 (strftime d)) = pad_digits 2 (month d)"
  "drop 8 (strftime d) = pad_digits 2 (day d)"
  by (simp_all add: strftime_def length_pad_digits nth_append)

lemma to_datetime_strftime:
  assumes "valid_date d" and "timestamp_range d"
  shows "to_datetime (strftime d) = Inr d"
proof -
  obtain y m dd where d: "d = Date y m dd" by (cases d)
  from assms(2) have "y \<le> 2262"
    by (auto simp: timestamp_range_def d date_le_iff)
  then have y: "year d < 10 ^ 4" by (simp add: d)
  from assms(1) have m: "month d < 10 ^ 2" by (simp add: valid_date_def)
  from assms(1) days_in_month_le [of "year d" "month d"] have dd: "day d < 10 ^ 2"
    by (simp add: valid_date_def)
  show ?thesis
    unfolding to_datetime_def strftime_parts
    using assms by (simp add: digits_pad digits_value_pad [OF y] digits_value_pad [OF m] digits_value_pad [OF dd] del: pad_digits.simps)
qed


lemma bound_dates_valid: "valid_date (Date 1950 1 1)" "valid_date (Date 2014 12 31)"
  "valid_date (Date 2015 1 1)" "valid_date (Date 2100 12 31)"
  by (simp_all add: valid_date_def days_in_month_def)

lemma bound_dates_in_range: "timestamp_range (Date 1950 1 1)" "timestamp_range (Date 2014 12 31)"
  "timestamp_range (Date 2015 1 1)" "timestamp_range (Date 2100 12 31)"
  by (simp_all add: timestamp_range_def date_le_iff)

lemma bound_dates_ordered: "Date 1950 1 1 \<le> Date 2014 12 31" "Date 2015 1 1 \<le> Date 2100 12 31"
  by (simp_all add: date_le_iff)

lemma scenario_bounds_ok:
  assumes "scenario_bounds sc = (lo, hi)"
  shows "valid_date lo \<and> timestamp_range lo \<and> valid_date hi \<and> timestamp_range hi \<and> lo \<le> hi"
proof (cases "sc = ''historical''")
  case True
  with assms have "lo = Date 1950 1 1" "hi = Date 2014 12 31"
    by (simp_all add: scenario_bounds_def)
  then show ?thesis using bound_dates_valid bound_dates_in_range bound_dates_ordered by simp
next
  case False
  with assms have "lo = Date 2015 1 1" "hi = Date 2100 12 31"
    by (simp_all add: scenario_bounds_def)
  then show ?thesis using bound_dates_valid bound_dates_in_range bound_dates_ordered by simp
qed

lemma to_datetime_Inr:
  "to_datetime s = Inr d \<Longrightarrow> valid_date d \<and> timestamp_range d"
  unfolding to_datetime_def Let_def by (simp split: if_splits)

lemma valid_window_bounds:
  "valid_window sc = window (fst (scenario_bounds sc)) (snd (scenario_bounds sc))"
  by (simp add: valid_window_def window_def scenario_bounds_def)

lemma window_inter: "window a b \<inter> window lo hi = window (max a lo) (min b hi)"
  by (auto simp: window_def)

lemma window_empty_iff: "window a b = {} \<longleftrightarrow> b < a"
proof
  assume "window a b = {}"
  then have "a \<notin> window a b" by simp
  then show "b < a" by (simp add: window_def)
next
  assume "b < a"
  then show "window a b = {}" by (auto simp: window_def)
qed

lemma clamp_dates_explicit:
  assumes "to_datetime s = Inr sd" and "to_datetime e = Inr ed"
    and "scenario_bounds sc = (lo, hi)"
  shows "clamp_dates_for_scenario s e sc =
     (if max sd lo > min ed hi then Inr None
      else Inr (Some (strftime (max sd lo), strftime (min ed hi))))"
  using assms by (simp add: clamp_dates_for_scenario_def)


lemma clamped_dates_ok:
  assumes "to_datetime s = Inr sd" and "to_datetime e = Inr ed"
    and "scenario_bounds sc = (lo, hi)"
  shows "to_datetime (strftime (max sd lo)) = Inr (max sd lo)"
    and "to_datetime (strftime (min ed hi)) = Inr (min ed hi)"
proof -
  from assms(1,2) have "valid_date sd \<and> timestamp_range sd" "valid_date ed \<and> timestamp_range ed"
    by (simp_all add: to_datetime_Inr)
  moreover from assms(3) have "valid_date lo \<and> timestamp_range lo" "valid_date hi \<and> timestamp_range hi"
    by (simp_all add: scenario_bounds_ok)
  ultimately have "valid_date (max sd lo) \<and> timestamp_range (max sd lo)"
    "valid_date (min ed hi) \<and> timestamp_range (min ed hi)"
    by (simp_all add: max_def min_def)
  then show "to_datetime (strftime (max sd lo)) = Inr (max sd lo)"
    and "to_datetime (strftime (min ed hi)) = Inr (min ed hi)"
    by (simp_all add: to_datetime_strftime)
qed

text \<open>
  Claim C2. For start and end dates and a scenario, \<open>clamp_dates_for_scenario\<close> returns
  the intersection of the requested window with the scenario's valid window
  (1950-01-01 to 2014-12-31 for \<open>historical\<close>, 2015-01-01 to 2100-12-31 otherwise), and
  the null pair exactly when that intersection is empty; the three examples of the
  specification evaluate as stated.
\<close>

theorem clamp_dates_for_scenario_intersection:
  "(to_datetime s = Inr sd \<longrightarrow> to_datetime e = Inr ed \<longrightarrow>
      (clamp_dates_for_scenario s e sc = Inr None \<longleftrightarrow> window sd ed \<inter> valid_window sc = {})
      \<and> (window sd ed \<inter> valid_window sc \<noteq> {} \<longrightarrow>
           (\<exists>a b ad bd. clamp_dates_for_scenario s e sc = Inr (Some (a, b))
              \<and> to_datetime a = Inr ad \<and> to_datetime b = Inr bd
              \<and> window ad bd = window sd ed \<inter> valid_window sc)))
   \<and> clamp_dates_for_scenario ''1900-01-01'' ''2020-12-31'' ''historical''
       = Inr (Some (''1950-01-01'', ''2014-12-31''))
   \<and> clamp_dates_for_scenario ''2095-01-01'' ''2099-12-31'' ''historical'' = Inr None
   \<and> clamp_dates_for_scenario ''2005-01-01'' ''2009-12-31'' ''ssp245'' = Inr None"
proof (intro conjI impI)
  assume s: "to_datetime s = Inr sd" and e: "to_datetime e = Inr ed"
  obtain lo hi where b: "scenario_bounds sc = (lo, hi)"
    by (cases "scenario_bounds sc")
  have inter: "window sd ed \<inter> valid_window sc = window (max sd lo) (min ed hi)"
    by (simp add: valid_window_bounds b window_inter)
  note ex = clamp_dates_explicit [OF s e b]
  show "clamp_dates_for_scenario s e sc = Inr None \<longleftrightarrow> window sd ed \<inter> valid_window sc = {}"
    by (simp add: ex inter window_empty_iff)
  assume "window sd ed \<inter> valid_window sc \<noteq> {}"
  then have ne: "\<not> min ed hi < max sd lo"
    by (simp add: inter window_empty_iff)
  have "clamp_dates_for_scenario s e sc = Inr (Some (strftime (max sd lo), strftime (min ed hi)))"
    using ne by (simp add: ex)
  with clamped_dates_ok [OF s e b] inter
  show "\<exists>a b ad bd. clamp_dates_for_scenario s e sc = Inr (Some (a, b))
      \<and> to_datetime a = Inr ad \<and> to_datetime b = Inr bd
      \<and> window ad bd = window sd ed \<inter> valid_window sc"
    by blast
next
  show "clamp_dates_for_scenario ''1900-01-01'' ''2020-12-31'' ''historical''
       = Inr (Some (''1950-01-01'', ''2014-12-31''))"
    by code_simp
  show "clamp_dates_for_scenario ''2095-01-01'' ''2099-12-31'' ''historical'' = Inr None"
    by code_simp
  show "clamp_dates_for_scenario ''2005-01-01'' ''2009-12-31'' ''ssp245'' = Inr None"
    by code_simp
qed

theorem clamp_dates_for_scenario_intersection_witness:
  "to_datetime ''2010-01-01'' = Inr (Date 2010 1 1) \<and> to_datetime ''2019-12-31'' = Inr (Date 2019 12 31)
   \<and> Date 2012 6 15 \<in> window (Date 2010 1 1) (Date 2019 12 31) \<inter> valid_window ''historical''
   \<and> clamp_dates_for_scenario ''2010-01-01'' ''2019-12-31'' ''historical'' \<noteq> Inr None
   \<and> (\<exists>a b ad bd. clamp_dates_for_scenario ''2010-01-01'' ''2019-12-31'' ''historical'' = Inr (Some (a, b))
              \<and> to_datetime a = Inr ad \<and> to_datetime b = Inr bd
              \<and> window ad bd = window (Date 2010 1 1) (Date 2019 12 31) \<inter> valid_window ''historical'')"
proof -
  have s: "to_datetime ''2010-01-01'' = Inr (Date 2010 1 1)" by code_simp
  have e: "to_datetime ''2019-12-31'' = Inr (Date 2019 12 31)" by code_simp
  have m: "Date 2012 6 15 \<in> window (Date 2010 1 1) (Date 2019 12 31) \<inter> valid_window ''historical''"
    by (simp add: window_def valid_window_def date_le_iff)
  then have ne: "window (Date 2010 1 1) (Date 2019 12 31) \<inter> valid_window ''historical'' \<noteq> {}"
    by blast
  from clamp_dates_for_scenario_intersection
    [of "''2010-01-01''" "Date 2010 1 1" "''2019-12-31''" "Date 2019 12 31" "''historical''"]
    s e m ne
  show ?thesis by simp
qed

text \<open>
  Claim C10. Whenever \<open>clamp_dates_for_scenario\<close> returns a pair of dates, the first is
  not after the second, both lie in the scenario's valid window, and clamping the pair
  again returns it unchanged.
\<close>

theorem clamp_dates_for_scenario_fixpoint:
  assumes "clamp_dates_for_scenario s e sc = Inr (Some (a, b))"
  shows "\<exists>ad bd. to_datetime a = Inr ad \<and> to_datetime b = Inr bd \<and> ad \<le> bd
           \<and> ad \<in> valid_window sc \<and> bd \<in> valid_window sc
           \<and> clamp_dates_for_scenario a b sc = Inr (Some (a, b))"
proof -
  from assms obtain sd ed where s: "to_datetime s = Inr sd" and e: "to_datetime e = Inr ed"
    by (auto simp: clamp_dates_for_scenario_def split: sum.splits)
  obtain lo hi where b: "scenario_bounds sc = (lo, hi)"
    by (cases "scenario_bounds sc")
  define A where "A = max sd lo"
  define B where "B = min ed hi"
  from assms have nlt: "\<not> B < A" and a: "a = strftime A" and b': "b = strftime B"
    unfolding A_def B_def by (auto simp: clamp_dates_explicit [OF s e b] split: if_splits)
  from nlt have le: "A \<le> B" by (rule leI)
  have pa: "to_datetime a = Inr A" and pb: "to_datetime b = Inr B"
    using clamped_dates_ok [OF s e b] by (simp_all add: a b' A_def B_def)
  have lohi: "lo \<le> hi" using scenario_bounds_ok [OF b] by simp
  have "lo \<le> A" "B \<le> hi" by (simp_all add: A_def B_def)
  with le have inA: "A \<in> window lo hi" and inB: "B \<in> window lo hi"
    by (auto simp: window_def)
  have mm: "max A lo = A" "min B hi = B"
    by (simp_all add: A_def B_def)
  have "clamp_dates_for_scenario a b sc =
      (if max A lo > min B hi then Inr None
       else Inr (Some (strftime (max A lo), strftime (min B hi))))"
    by (rule clamp_dates_explicit [OF pa pb b])
  also have "\<dots> = Inr (Some (a, b))"
    using nlt by (simp add: mm a b')
  finally have "clamp_dates_for_scenario a b sc = Inr (Some (a, b))" .
  with pa pb le inA inB show ?thesis
    by (simp add: valid_window_bounds b)
qed

theorem clamp_dates_for_scenario_fixpoint_witness:
  "clamp_dates_for_scenario ''1900-01-01'' ''2020-12-31'' ''historical''
       = Inr (Some (''1950-01-01'', ''2014-12-31''))
   \<and> (\<exists>ad bd. to_datetime ''1950-01-01'' = Inr ad \<and> to_datetime ''2014-12-31'' = Inr bd \<and> ad \<le> bd
           \<and> ad \<in> valid_window ''historical'' \<and> bd \<in> valid_window ''historical''
           \<and> clamp_dates_for_scenario ''1950-01-01'' ''2014-12-31'' ''historical''
              = Inr (Some (''1950-01-01'', ''2014-12-31'')))"
proof -
  have h: "clamp_dates_for_scenario ''1900-01-01'' ''2020-12-31'' ''historical''
       = Inr (Some (''1950-01-01'', ''2014-12-31''))"
    by code_simp
  from h clamp_dates_for_scenario_fixpoint [OF h] show ?thesis by simp
qed

subsection \<open>The range of a float\<close>

lemma float_limit_large: "2 ^ 40 \<le> float_limit"
proof -
  have "(2::real) ^ 1024 = 2 ^ 970 * 2 ^ 54"
    by (simp add: power_add [symmetric])
  then have e: "float_limit = 2 ^ 970 * (2 ^ 54 - 1)"
    by (simp add: float_limit_def algebra_simps)
  have "(2::real) ^ 40 \<le> 2 ^ 970"
    by (rule power_increasing) simp_all
  also have "\<dots> = 2 ^ 970 * 1" by simp
  also have "\<dots> \<le> 2 ^ 970 * (2 ^ 54 - 1 :: real)"
    by (rule mult_left_mono) simp_all
  finally show ?thesis by (simp only: e)
qed

lemma float_limit_huge: "float_limit \<le> \<bar>10 ^ 400\<bar>"
proof -
  have "float_limit \<le> (2::real) ^ 1024" by (simp add: float_limit_def)
  also have "\<dots> \<le> 2 ^ 1200" by (rule power_increasing) simp_all
  also have "\<dots> = 8 ^ 400"
    using power_mult [of "2::real" 3 400] by simp
  also have "\<dots> \<le> 10 ^ 400" by (rule power_mono) simp_all
  finally show ?thesis by simp
qed

lemma py_float_in_range: "\<bar>x\<bar> < float_limit \<Longrightarrow> py_float L (JNum x) = Inr x"
  by simp

lemma py_float_small: "\<bar>x\<bar> < 2 ^ 40 \<Longrightarrow> py_float L (JNum x) = Inr x"
  using float_limit_large by simp

lemma py_float_huge: "py_float L (JNum (10 ^ 400)) = Inl OverflowError"
  using float_limit_huge by simp

lemma cell_ok_small: "\<bar>x\<bar> < 2 ^ 40 \<Longrightarrow> cell_ok (JNum x)"
  using float_limit_large by (simp add: cell_ok_def)

declare py_float.simps(1) [simp del]

subsection \<open>The example catalog, evaluated\<close>

lemma digit_char_simps:
  "digit_char 0 = CHR ''0''" "digit_char 1 = CHR ''1''" "digit_char 2 = CHR ''2''"
  "digit_char 3 = CHR ''3''" "digit_char 4 = CHR ''4''" "digit_char 5 = CHR ''5''"
  "digit_char 6 = CHR ''6''" "digit_char 7 = CHR ''7''" "digit_char 8 = CHR ''8''"
  "digit_char 9 = CHR ''9''"
  by code_simp+

lemma pad_digits_4:
  "pad_digits 4 n = [digit_char (n div 1000 mod 10), digit_char (n div 100 mod 10),
     digit_char (n div 10 mod 10), digit_char (n mod 10)]"
proof -
  have "pad_digits (Suc (Suc (Suc (Suc 0)))) n = [digit_char (n div 1000 mod 10), digit_char (n div 100 mod 10),
     digit_char (n div 10 mod 10), digit_char (n mod 10)]"
    by (simp add: div_mult2_eq [symmetric])
  moreover have "(4::nat) = Suc (Suc (Suc (Suc 0)))" by simp
  ultimately show ?thesis by (simp only:)
qed

lemma decade_entry_2020: "decade_entry 2020 = (''2020s (2020-01-01 to 2029-12-31)'', ''2020-01-01'', ''2029-12-31'')"
  by (simp add: decade_entry_def pad_digits_4 digit_char_simps)

lemma example_decades:
  "lookup_all DECADES [''2020s (2020-01-01 to 2029-12-31)''] = Inr [(''2020-01-01'', ''2029-12-31'')]"
  by (simp add: DECADES_def upt_rec decade_entry_def pad_digits_4 digit_char_simps)


lemmas fetch_defs = fetch_point_timeseries_def size_check_def check_bands_def region_table_def
  finish_fetch_def row_date_def from_records_def frame_empty_def convert_units_def
  make_query_def example_lib_def example_remote_def example_region_def py_float_small

lemma example_fetch:
  "fetch_point_timeseries example_lib example_remote (sel_lat example_selection) (sel_lon example_selection)
     ''2020-01-01'' ''2029-12-31'' (sel_bands example_selection) m ''ssp245''
   = Inr ([Success_records 1 [''tas'']], example_frame [example_row m (if m = ''CanESM5'' then 10 else 20)])"
  by (simp add: fetch_defs example_row_def example_frame_def example_selection_def)

lemma example_clamp:
  "clamp_dates_for_scenario ''2020-01-01'' ''2029-12-31'' ''ssp245'' = Inr (Some (''2020-01-01'', ''2029-12-31''))"
  by code_simp

lemma example_sweep:
  "scenario_loop example_lib example_remote example_selection [(''2020-01-01'', ''2029-12-31'')]
     [''ssp245''] sweep_start
   = \<lparr>calls = [(\<lparr>q_lat = 51.5, q_lon = 0, q_start = ''2020-01-01'', q_end = ''2029-12-31'',
                   q_model = ''CanESM5'', q_scenario = ''ssp245''\<rparr>, [''tas'']),
                (\<lparr>q_lat = 51.5, q_lon = 0, q_start = ''2020-01-01'', q_end = ''2029-12-31'',
                   q_model = ''EC-Earth3'', q_scenario = ''ssp245''\<rparr>, [''tas''])],
      all_frames = [example_frame [example_row ''CanESM5'' 10], example_frame [example_row ''EC-Earth3'' 20]],
      error_log = [],
      shown = [Success_records 1 [''tas''], Success_records 1 [''tas'']],
      raised = None\<rparr>"
proof -
  have m: "sel_models example_selection = [''CanESM5'', ''EC-Earth3'']"
    and other: "sel_lat example_selection = 51.5" "sel_lon example_selection = 0"
      "sel_bands example_selection = [''tas'']"
    by (simp_all add: example_selection_def)
  have ne: "\<not> frame_empty (example_frame [r])" for r
    by (simp add: frame_empty_def example_frame_def)
  show ?thesis
    by (simp add: example_clamp m example_fetch ne Let_def sweep_start_def)
      (simp add: other make_query_def)
qed


lemma example_build_output:
  "build_output example_selection
     [example_frame [example_row ''CanESM5'' 10], example_frame [example_row ''EC-Earth3'' 20]]
   = Inr (example_frame [example_row ''CanESM5'' 10, example_row ''EC-Earth3'' 20],
          example_frame [example_row ''CanESM5'' 10, example_row ''EC-Earth3'' 20,
                         example_row ''ENSEMBLE-MEAN'' 15])"
  by (simp add: build_output_def concat_frames_def union_columns_def sort_values_def
      sort_columns_def ensemble_frames_def ensemble_for_def mean_def
      example_frame_def example_row_def example_selection_def Let_def)

lemma example_main_fetch:
  "run_outcome (main_fetch example_lib example_remote example_selection)
   = Ready (example_frame [example_row ''CanESM5'' 10, example_row ''EC-Earth3'' 20])
       (example_frame [example_row ''CanESM5'' 10, example_row ''EC-Earth3'' 20,
                       example_row ''ENSEMBLE-MEAN'' 15])"
proof -
  have v: "validate example_selection = None" "show_configuration example_selection = None"
    and d: "decades example_selection = [''2020s (2020-01-01 to 2029-12-31)'']"
    and s: "sel_scen example_selection = [''ssp245'']"
    by (simp_all add: validate_def show_configuration_def example_selection_def
        AVAILABLE_BANDS_def KNOWN_MODELS_def)
  have l: "lookup_all DECADES (decades example_selection) = Inr [(''2020-01-01'', ''2029-12-31'')]"
    by (simp only: d example_decades)
  show ?thesis
    by (simp add: main_fetch_def v l s example_sweep example_build_output Let_def
        del: scenario_loop.simps)
qed

subsection \<open>The fetch sweep\<close>

lemma example_run_calls:
  "map (q_model \<circ> fst) (run_calls (main_fetch example_lib example_remote example_selection))
   = [''CanESM5'', ''EC-Earth3'']"
proof -
  have v: "validate example_selection = None" "show_configuration example_selection = None"
    and d: "decades example_selection = [''2020s (2020-01-01 to 2029-12-31)'']"
    and s: "sel_scen example_selection = [''ssp245'']"
    by (simp_all add: validate_def show_configuration_def example_selection_def
        AVAILABLE_BANDS_def KNOWN_MODELS_def)
  have l: "lookup_all DECADES (decades example_selection) = Inr [(''2020-01-01'', ''2029-12-31'')]"
    by (simp only: d example_decades)
  show ?thesis
    by (simp add: main_fetch_def v l s example_sweep Let_def del: scenario_loop.simps)
qed

text \<open>
  Claim C8. When the list of variables, of models, of scenarios or of decades is empty, or
  the ensemble mean is requested with fewer than two models, the sweep ends with a message
  to the user and the fetcher is never invoked.
\<close>

theorem main_fetch_validation_aborts:
  assumes "sel_bands sel = [] \<or> sel_models sel = [] \<or> sel_scen sel = [] \<or> decades sel = []
           \<or> (include_ensemble sel \<and> length (sel_models sel) < 2)"
  shows "(\<exists>msg. run_outcome (main_fetch L R sel) = Aborted msg) \<and> run_calls (main_fetch L R sel) = []"
proof -
  from assms have "validate sel \<noteq> None"
    by (auto simp: validate_def)
  then obtain msg where "validate sel = Some msg"
    by blast
  then show ?thesis
    by (simp add: main_fetch_def)
qed

theorem main_fetch_validation_aborts_witness:
  "sel_bands (example_selection\<lparr>sel_bands := []\<rparr>) = []
   \<and> (\<exists>msg. run_outcome (main_fetch example_lib example_remote (example_selection\<lparr>sel_bands := []\<rparr>))
              = Aborted msg)
   \<and> run_calls (main_fetch example_lib example_remote (example_selection\<lparr>sel_bands := []\<rparr>)) = []
   \<and> include_ensemble (example_selection\<lparr>sel_models := [''CanESM5'']\<rparr>)
   \<and> length (sel_models (example_selection\<lparr>sel_models := [''CanESM5'']\<rparr>)) < 2
   \<and> (\<exists>msg. run_outcome (main_fetch example_lib example_remote
                (example_selection\<lparr>sel_models := [''CanESM5'']\<rparr>)) = Aborted msg)
   \<and> run_calls (main_fetch example_lib example_remote
         (example_selection\<lparr>sel_models := [''CanESM5'']\<rparr>)) = []"
proof -
  have a: "sel_bands (example_selection\<lparr>sel_bands := []\<rparr>) = []"
    by simp
  have b: "include_ensemble (example_selection\<lparr>sel_models := [''CanESM5'']\<rparr>)
      \<and> length (sel_models (example_selection\<lparr>sel_models := [''CanESM5'']\<rparr>)) < 2"
    by (simp add: example_selection_def)
  from a b
    main_fetch_validation_aborts [of "example_selection\<lparr>sel_bands := []\<rparr>" example_lib example_remote]
    main_fetch_validation_aborts [of "example_selection\<lparr>sel_models := [''CanESM5'']\<rparr>"
      example_lib example_remote]
  show ?thesis by blast
qed

lemma sort_columns_le: "sort_columns a \<le> sort_columns b \<longleftrightarrow> record_le a b"
  by (auto simp: sort_columns_def record_le_def less_eq_prod_def)

lemma in_order_sort_values: "in_order (sort_values df)"
proof -
  have "sorted (map sort_columns (rows (sort_values df)))"
    by (simp add: sort_values_def)
  then show ?thesis
    by (simp add: in_order_def sorted_map sort_columns_le)
qed

lemma build_output_in_order:
  assumes "build_output sel frames = Inr (all_data, out)"
  shows "in_order all_data \<and> in_order out"
  using assms
  by (auto simp: build_output_def Let_def in_order_sort_values split: sum.splits if_splits)

lemma unordered_fetch:
  "fetch_point_timeseries example_lib example_remote (sel_lat unordered_selection) (sel_lon unordered_selection)
     ''2020-01-01'' ''2029-12-31'' (sel_bands unordered_selection) m ''ssp245''
   = Inr ([Success_records 2 [''pr'', ''tasmax'']],
          example_frame [unordered_row ''tasmax'' m (if m = ''CanESM5'' then 10 else 20),
                         unordered_row ''pr'' m 84.375])"
  by (simp add: fetch_defs unordered_row_def example_frame_def example_selection_def
      unordered_selection_def)

lemma unordered_sweep:
  "scenario_loop example_lib example_remote unordered_selection [(''2020-01-01'', ''2029-12-31'')]
     [''ssp245''] sweep_start
   = \<lparr>calls = [(\<lparr>q_lat = 51.5, q_lon = 0, q_start = ''2020-01-01'', q_end = ''2029-12-31'',
                   q_model = ''EC-Earth3'', q_scenario = ''ssp245''\<rparr>, [''tasmax'', ''pr'']),
                (\<lparr>q_lat = 51.5, q_lon = 0, q_start = ''2020-01-01'', q_end = ''2029-12-31'',
                   q_model = ''CanESM5'', q_scenario = ''ssp245''\<rparr>, [''tasmax'', ''pr''])],
      all_frames = [example_frame [unordered_row ''tasmax'' ''EC-Earth3'' 20,
                                   unordered_row ''pr'' ''EC-Earth3'' 84.375],
                    example_frame [unordered_row ''tasmax'' ''CanESM5'' 10,
                                   unordered_row ''pr'' ''CanESM5'' 84.375]],
      error_log = [],
      shown = [Success_records 2 [''pr'', ''tasmax''], Success_records 2 [''pr'', ''tasmax'']],
      raised = None\<rparr>"
proof -
  have m: "sel_models unordered_selection = [''EC-Earth3'', ''CanESM5'']"
    and other: "sel_lat unordered_selection = 51.5" "sel_lon unordered_selection = 0"
      "sel_bands unordered_selection = [''tasmax'', ''pr'']"
    by (simp_all add: unordered_selection_def example_selection_def)
  have ne: "\<not> frame_empty (example_frame (r # rs))" for r rs
    by (simp add: frame_empty_def example_frame_def)
  show ?thesis
    by (simp add: example_clamp m unordered_fetch ne Let_def sweep_start_def)
      (simp add: other make_query_def)
qed

lemma unordered_build_output:
  "build_output unordered_selection
     [example_frame [unordered_row ''tasmax'' ''EC-Earth3'' 20, unordered_row ''pr'' ''EC-Earth3'' 84.375],
      example_frame [unordered_row ''tasmax'' ''CanESM5'' 10, unordered_row ''pr'' ''CanESM5'' 84.375]]
   = Inr (example_frame [unordered_row ''pr'' ''CanESM5'' 84.375, unordered_row ''pr'' ''EC-Earth3'' 84.375,
                         unordered_row ''tasmax'' ''CanESM5'' 10, unordered_row ''tasmax'' ''EC-Earth3'' 20],
          example_frame [unordered_row ''pr'' ''CanESM5'' 84.375, unordered_row ''pr'' ''EC-Earth3'' 84.375,
                         unordered_row ''pr'' ''ENSEMBLE-MEAN'' 84.375,
                         unordered_row ''tasmax'' ''CanESM5'' 10, unordered_row ''tasmax'' ''EC-Earth3'' 20,
                         unordered_row ''tasmax'' ''ENSEMBLE-MEAN'' 15])"
  by (simp add: build_output_def concat_frames_def union_columns_def sort_values_def
      sort_columns_def ensemble_frames_def ensemble_for_def mean_def
      example_frame_def unordered_row_def unordered_selection_def example_selection_def Let_def)

lemma unordered_main_fetch:
  "run_outcome (main_fetch example_lib example_remote unordered_selection)
   = Ready
       (example_frame [unordered_row ''pr'' ''CanESM5'' 84.375, unordered_row ''pr'' ''EC-Earth3'' 84.375,
                       unordered_row ''tasmax'' ''CanESM5'' 10, unordered_row ''tasmax'' ''EC-Earth3'' 20])
       (example_frame [unordered_row ''pr'' ''CanESM5'' 84.375, unordered_row ''pr'' ''EC-Earth3'' 84.375,
                       unordered_row ''pr'' ''ENSEMBLE-MEAN'' 84.375,
                       unordered_row ''tasmax'' ''CanESM5'' 10, unordered_row ''tasmax'' ''EC-Earth3'' 20,
                       unordered_row ''tasmax'' ''ENSEMBLE-MEAN'' 15])"
proof -
  have v: "validate unordered_selection = None" "show_configuration unordered_selection = None"
    and d: "decades unordered_selection = [''2020s (2020-01-01 to 2029-12-31)'']"
    and s: "sel_scen unordered_selection = [''ssp245'']"
    by (simp_all add: validate_def show_configuration_def unordered_selection_def
        example_selection_def AVAILABLE_BANDS_def KNOWN_MODELS_def)
  have l: "lookup_all DECADES (decades unordered_selection) = Inr [(''2020-01-01'', ''2029-12-31'')]"
    by (simp only: d example_decades)
  show ?thesis
    by (simp add: main_fetch_def v l s unordered_sweep unordered_build_output [simplified] Let_def
        del: scenario_loop.simps)
qed

lemma unordered_frames:
  "map rows (all_frames (scenario_loop example_lib example_remote unordered_selection
      [(''2020-01-01'', ''2029-12-31'')] [''ssp245''] sweep_start))
   = [[unordered_row ''tasmax'' ''EC-Earth3'' 20, unordered_row ''pr'' ''EC-Earth3'' 84.375],
      [unordered_row ''tasmax'' ''CanESM5'' 10, unordered_row ''pr'' ''CanESM5'' 84.375]]"
  by (simp add: unordered_sweep example_frame_def del: scenario_loop.simps)

text \<open>
  Claim C9. After a sweep that yields records, the table of all models and the final
  table, with any \<open>ENSEMBLE-MEAN\<close> records, are sorted by band, then model, then scenario,
  then date: in both, every record comes before all the records after it in that order.
\<close>

theorem main_fetch_tables_sorted:
  assumes "run_outcome (main_fetch L R sel) = Ready all_data out"
  shows "in_order all_data \<and> in_order out"
proof -
  from assms obtain frames where "build_output sel frames = Inr (all_data, out)"
    by (auto simp: main_fetch_def Let_def split: option.splits sum.splits if_splits)
  then show ?thesis by (rule build_output_in_order)
qed

theorem main_fetch_tables_sorted_witness:
  "run_outcome (main_fetch example_lib example_remote unordered_selection)
     = Ready
         (example_frame [unordered_row ''pr'' ''CanESM5'' 84.375, unordered_row ''pr'' ''EC-Earth3'' 84.375,
                         unordered_row ''tasmax'' ''CanESM5'' 10, unordered_row ''tasmax'' ''EC-Earth3'' 20])
         (example_frame [unordered_row ''pr'' ''CanESM5'' 84.375, unordered_row ''pr'' ''EC-Earth3'' 84.375,
                         unordered_row ''pr'' ''ENSEMBLE-MEAN'' 84.375,
                         unordered_row ''tasmax'' ''CanESM5'' 10, unordered_row ''tasmax'' ''EC-Earth3'' 20,
                         unordered_row ''tasmax'' ''ENSEMBLE-MEAN'' 15])
   \<and> in_order
       (example_frame [unordered_row ''pr'' ''CanESM5'' 84.375, unordered_row ''pr'' ''EC-Earth3'' 84.375,
                       unordered_row ''tasmax'' ''CanESM5'' 10, unordered_row ''tasmax'' ''EC-Earth3'' 20])
   \<and> in_order
       (example_frame [unordered_row ''pr'' ''CanESM5'' 84.375, unordered_row ''pr'' ''EC-Earth3'' 84.375,
                       unordered_row ''pr'' ''ENSEMBLE-MEAN'' 84.375,
                       unordered_row ''tasmax'' ''CanESM5'' 10, unordered_row ''tasmax'' ''EC-Earth3'' 20,
                       unordered_row ''tasmax'' ''ENSEMBLE-MEAN'' 15])
   \<and> map rows (all_frames (scenario_loop example_lib example_remote unordered_selection
        [(''2020-01-01'', ''2029-12-31'')] [''ssp245''] sweep_start))
     = [[unordered_row ''tasmax'' ''EC-Earth3'' 20, unordered_row ''pr'' ''EC-Earth3'' 84.375],
        [unordered_row ''tasmax'' ''CanESM5'' 10, unordered_row ''pr'' ''CanESM5'' 84.375]]
   \<and> \<not> in_order
       (example_frame [unordered_row ''tasmax'' ''EC-Earth3'' 20, unordered_row ''pr'' ''EC-Earth3'' 84.375,
                       unordered_row ''tasmax'' ''CanESM5'' 10, unordered_row ''pr'' ''CanESM5'' 84.375])"
proof -
  have n: "\<not> in_order
       (example_frame [unordered_row ''tasmax'' ''EC-Earth3'' 20, unordered_row ''pr'' ''EC-Earth3'' 84.375,
                       unordered_row ''tasmax'' ''CanESM5'' 10, unordered_row ''pr'' ''CanESM5'' 84.375])"
    by (simp add: in_order_def record_le_def example_frame_def unordered_row_def)
  from unordered_main_fetch main_fetch_tables_sorted [OF unordered_main_fetch] n unordered_frames
  show ?thesis by (simp del: scenario_loop.simps)
qed

subsection \<open>Ensemble aggregator\<close>

lemma filter_concat_map_key:
  assumes "distinct xs" and "x \<in> set xs" and "\<And>y z. z \<in> set (f y) \<Longrightarrow> key z = y"
  shows "filter (\<lambda>z. key z = x) (concat (map f xs)) = f x"
  using assms(1,2)
proof (induction xs)
  case Nil
  then show ?case by simp
next
  case (Cons a xs)
  have fa: "filter (\<lambda>z. key z = x) (f y) = (if y = x then f y else [])" for y
    using assms(3) [of _ y] by (auto simp: filter_empty_conv intro: filter_True)
  show ?case
  proof (cases "a = x")
    case True
    with Cons.prems have "x \<notin> set xs" by simp
    then have "filter (\<lambda>z. key z = x) (concat (map f xs)) = []"
      using assms(3) by (auto simp: filter_empty_conv)
    with True show ?thesis by (simp add: fa)
  next
    case False
    with Cons show ?thesis by (simp add: fa)
  qed
qed

lemma emitted_eq:
  "emitted T scens bands = concat (map (\<lambda>s. concat (map (\<lambda>b. ens_rows T s b) bands)) scens)"
proof -
  have inner: "concat (map rows (concat (map (\<lambda>b. case ensemble_for T s b of None \<Rightarrow> [] | Some e \<Rightarrow> [e]) bands)))
      = concat (map (\<lambda>b. ens_rows T s b) bands)" for s
    by (induction bands) (auto simp: ens_rows_def split: option.splits)
  show ?thesis
    unfolding emitted_def ensemble_frames_def
    by (induction scens) (simp_all add: inner)
qed

lemma ens_rows_fields:
  assumes "e \<in> set (ens_rows T s b)"
  shows "scenario e = s" and "band e = b" and "model e = ''ENSEMBLE-MEAN''"
  using assms by (auto simp: ens_rows_def ensemble_for_def Let_def split: if_splits)

lemma filter_emitted:
  assumes "distinct scens" and "distinct bands" and "s \<in> set scens" and "b \<in> set bands"
  shows "filter (\<lambda>e. band e = b) (filter (\<lambda>e. scenario e = s) (emitted T scens bands)) = ens_rows T s b"
proof -
  have "filter (\<lambda>e. scenario e = s) (emitted T scens bands) = concat (map (\<lambda>b. ens_rows T s b) bands)"
    unfolding emitted_eq
    by (rule filter_concat_map_key [OF assms(1,3)]) (auto dest: ens_rows_fields)
  moreover have "filter (\<lambda>e. band e = b) (concat (map (\<lambda>b. ens_rows T s b) bands)) = ens_rows T s b"
    by (rule filter_concat_map_key [OF assms(2,4)]) (auto dest: ens_rows_fields)
  ultimately show ?thesis by simp
qed

lemma filter_map_distinct_key:
  assumes "distinct ds" and "\<And>x. key (mk x) = x"
  shows "filter (\<lambda>e. key e = d) (map mk ds) = (if d \<in> set ds then [mk d] else [])"
  using assms(1) by (induction ds) (auto simp: assms(2))

lemma find_unique:
  assumes "distinct (map f g)" and "r \<in> set g"
  shows "find (\<lambda>r'. f r' = f r) g = Some r"
  using assms by (induction g) (auto simp: rev_image_eqI)

lemma group_models_distinct:
  assumes "distinct (map record_key (rows T))"
  shows "distinct (map model (group_rows T s b d))"
proof -
  have "distinct (map record_key (group_rows T s b d))"
    unfolding group_rows_def using assms by (rule distinct_map_filter)
  then have dist: "distinct (group_rows T s b d)" and inj: "inj_on record_key (set (group_rows T s b d))"
    by (simp_all add: distinct_map)
  have "inj_on model (set (group_rows T s b d))"
  proof (rule inj_onI)
    fix x y
    assume x: "x \<in> set (group_rows T s b d)" and y: "y \<in> set (group_rows T s b d)"
      and m: "model x = model y"
    then have "record_key x = record_key y"
      by (simp add: group_rows_def record_key_def)
    with inj x y show "x = y" by (auto dest: inj_onD)
  qed
  with dist show ?thesis by (simp add: distinct_map)
qed

lemma mean_group:
  assumes "distinct (map record_key (rows T))"
  shows "mean (map val (group_rows T s b d)) = ensemble_mean_spec T s b d"
proof -
  let ?g = "group_rows T s b d"
  have dm: "distinct (map model ?g)"
    using assms by (rule group_models_distinct)
  have "map val ?g = map (value_of T s b d) (map model ?g)"
    by (simp add: value_of_def find_unique [OF dm])
  then have "sum_list (map val ?g) = sum_list (map (value_of T s b d) (map model ?g))"
    by (rule arg_cong)
  also have "\<dots> = sum (value_of T s b d) (set (map model ?g))"
    using dm by (rule sum_list_distinct_conv_sum_set)
  finally have s: "sum_list (map val ?g) = sum (value_of T s b d) (models_at T s b d)"
    by (simp add: models_at_def)
  have "length ?g = card (models_at T s b d)"
    using distinct_card [OF dm] by (simp add: models_at_def)
  with s show ?thesis
    by (simp add: mean_def ensemble_mean_spec_def)
qed

lemma ens_rows_eq:
  "ens_rows T s b =
     map (\<lambda>d. \<lparr>date = d, band = b, val = mean (map val (group_rows T s b d)),
                model = ''ENSEMBLE-MEAN'', scenario = s\<rparr>)
       (sort (remdups (map date (filter (\<lambda>r. scenario r = s \<and> band r = b) (rows T)))))"
proof -
  have "filter (\<lambda>r. date r = d) (filter (\<lambda>r. scenario r = s \<and> band r = b) (rows T)) = group_rows T s b d" for d
    by (auto simp: group_rows_def intro: filter_cong)
  then show ?thesis
    by (simp add: ens_rows_def ensemble_for_def Let_def)
qed


text \<open>
  Claim C3. In a combined table with at most one record for each date, variable, model
  and scenario, for every selected scenario and variable the aggregator emits exactly one
  record for each date that occurs among the rows of that scenario and variable, with
  model \<open>ENSEMBLE-MEAN\<close>, that scenario and variable, and as value the arithmetic mean
  of the values over exactly the models that have a record for that date. Two models
  with the values 10 and 20 give 15.
\<close>

theorem ensemble_one_record_per_date:
  assumes "distinct (map record_key (rows T))"
    and "distinct scens" and "distinct bands" and "s \<in> set scens" and "b \<in> set bands"
  shows "filter (\<lambda>e. scenario e = s \<and> band e = b \<and> date e = d) (emitted T scens bands)
           = (if group_rows T s b d = [] then []
              else [\<lparr>date = d, band = b, val = ensemble_mean_spec T s b d,
                     model = ''ENSEMBLE-MEAN'', scenario = s\<rparr>])
         \<and> (\<forall>e \<in> set (emitted T scens bands). model e = ''ENSEMBLE-MEAN'')"
proof
  let ?sub = "filter (\<lambda>r. scenario r = s \<and> band r = b) (rows T)"
  let ?ds = "sort (remdups (map date ?sub))"
  let ?mk = "\<lambda>d. \<lparr>date = d, band = b, val = mean (map val (group_rows T s b d)),
                    model = ''ENSEMBLE-MEAN'', scenario = s\<rparr>"
  have "filter (\<lambda>e. scenario e = s \<and> band e = b \<and> date e = d) (emitted T scens bands)
      = filter (\<lambda>e. date e = d)
          (filter (\<lambda>e. band e = b) (filter (\<lambda>e. scenario e = s) (emitted T scens bands)))"
    by (auto simp: filter_filter intro: filter_cong)
  also have "\<dots> = filter (\<lambda>e. date e = d) (map ?mk ?ds)"
    by (simp only: filter_emitted [OF assms(2,3,4,5)] ens_rows_eq)
  also have "\<dots> = (if d \<in> set ?ds then [?mk d] else [])"
    by (rule filter_map_distinct_key) simp_all
  also have "d \<in> set ?ds \<longleftrightarrow> group_rows T s b d \<noteq> []"
    by (auto simp: group_rows_def filter_empty_conv)
  finally show "filter (\<lambda>e. scenario e = s \<and> band e = b \<and> date e = d) (emitted T scens bands)
           = (if group_rows T s b d = [] then []
              else [\<lparr>date = d, band = b, val = ensemble_mean_spec T s b d,
                     model = ''ENSEMBLE-MEAN'', scenario = s\<rparr>])"
    by (simp add: mean_group [OF assms(1)])
  show "\<forall>e \<in> set (emitted T scens bands). model e = ''ENSEMBLE-MEAN''"
    by (auto simp: emitted_eq dest: ens_rows_fields)
qed


lemma ensemble_df_rows:
  "concat_frames (ensemble_frames T scens bands) = Inr ensemble_df \<Longrightarrow>
     rows ensemble_df = emitted T scens bands"
  by (auto simp: concat_frames_def emitted_def split: if_splits)

theorem ensemble_one_record_per_date_witness:
  "distinct (map record_key (rows (example_frame [example_row ''CanESM5'' 10, example_row ''EC-Earth3'' 20])))
   \<and> distinct [''ssp245''] \<and> distinct [''tas''] \<and> ''ssp245'' \<in> set [''ssp245''] \<and> ''tas'' \<in> set [''tas'']
   \<and> group_rows (example_frame [example_row ''CanESM5'' 10, example_row ''EC-Earth3'' 20])
         ''ssp245'' ''tas'' ''2020-01-01'' \<noteq> []
   \<and> filter (\<lambda>e. scenario e = ''ssp245'' \<and> band e = ''tas'' \<and> date e = ''2020-01-01'')
         (emitted (example_frame [example_row ''CanESM5'' 10, example_row ''EC-Earth3'' 20])
            [''ssp245''] [''tas''])
       = [example_row ''ENSEMBLE-MEAN'' 15]
   \<and> list_all (\<lambda>e. model e = ''ENSEMBLE-MEAN'')
         (emitted (example_frame [example_row ''CanESM5'' 10, example_row ''EC-Earth3'' 20])
            [''ssp245''] [''tas''])"
proof -
  let ?T = "example_frame [example_row ''CanESM5'' 10, example_row ''EC-Earth3'' 20]"
  have d: "distinct (map record_key (rows ?T))"
    by (simp add: example_frame_def example_row_def record_key_def)
  have g: "group_rows ?T ''ssp245'' ''tas'' ''2020-01-01''
      = [example_row ''CanESM5'' 10, example_row ''EC-Earth3'' 20]"
    by (simp add: group_rows_def example_frame_def example_row_def)
  have m: "ensemble_mean_spec ?T ''ssp245'' ''tas'' ''2020-01-01'' = 15"
    by (simp add: ensemble_mean_spec_def models_at_def value_of_def g) (simp add: example_row_def)
  from ensemble_one_record_per_date [OF d, of "[''ssp245'']" "[''tas'']" "''ssp245''" "''tas''" "''2020-01-01''"]
    d g m
  show ?thesis
    by (simp add: example_row_def list_all_iff)
qed

subsection \<open>Time-series fetcher\<close>

lemma find_item_None_iff: "find_item s xs = None \<longleftrightarrow> JStr s \<notin> set xs"
  by (induction xs) auto

lemma find_item_less: "find_item s xs = Some i \<Longrightarrow> i < length xs"
  by (induction xs arbitrary: i) (auto split: if_splits)

lemma py_filter_in_list: "py_filter_in bs (JList xs) = Inr (filter (\<lambda>b. JStr b \<in> set xs) bs)"
  by (induction bs) auto

lemma band_loop_table:
  assumes "row_ok hs bs r"
  shows "band_loop L (JList hs) r d mdl scn bs (recs, found)
         = Inr (recs @ row_observations hs bs mdl scn d r,
                found \<union> set (map band (row_observations hs bs mdl scn d r)))"
  using assms
proof (induction bs arbitrary: recs found)
  case Nil
  then show ?case by (simp add: row_observations_def)
next
  case (Cons b bs)
  from Cons.prems obtain cells where r: "r = JList cells"
    by (auto simp: row_ok_def split: jv.splits)
  from Cons.prems have rest: "row_ok hs bs r"
    by (simp add: row_ok_def r)
  note IH = Cons.IH [OF rest]
  have split: "row_observations hs (b # bs) mdl scn d r
      = (case band_value hs r b of None \<Rightarrow> []
         | Some x \<Rightarrow> [\<lparr>date = d, band = b, val = convert_units b x, model = mdl, scenario = scn\<rparr>])
        @ row_observations hs bs mdl scn d r"
    by (simp add: row_observations_def)
  show ?case
  proof (cases "find_item b hs")
    case None
    then have "JStr b \<notin> set hs" by (simp add: find_item_None_iff)
    with None show ?thesis
      by (simp add: IH split band_value_def)
  next
    case (Some i)
    then have mem: "JStr b \<in> set hs"
      using find_item_None_iff [of b hs] by auto
    from Cons.prems Some have i: "i < length cells" and ok: "cell_ok (cells ! i)"
      by (simp_all add: row_ok_def r)
    from i have gi: "py_getitem r i = Inr (cells ! i)"
      by (simp add: r)
    from ok consider "cells ! i = JNull"
      | x where "cells ! i = JNum x" "\<bar>x\<bar> < float_limit"
      by (auto simp: cell_ok_def split: jv.splits)
    then show ?thesis
    proof cases
      case 1
      with Some mem show ?thesis
        by (simp add: IH split band_value_def gi)
    next
      case 2
      with Some mem show ?thesis
        by (simp add: IH split band_value_def gi py_float_in_range)
    qed
  qed
qed

lemma row_loop_table:
  assumes "list_all (row_ok hs bs) rs"
  shows "row_loop L (JList hs) tidx mdl scn bs rs (recs, found)
         = Inr (recs @ observations L hs tidx bs mdl scn rs,
                found \<union> set (map band (observations L hs tidx bs mdl scn rs)))"
  using assms
proof (induction rs arbitrary: recs found)
  case Nil
  then show ?case by (simp add: observations_def)
next
  case (Cons r rs)
  then have r: "row_ok hs bs r" and rest: "list_all (row_ok hs bs) rs"
    by simp_all
  have split: "observations L hs tidx bs mdl scn (r # rs)
      = (case row_date L r tidx of None \<Rightarrow> [] | Some d \<Rightarrow> row_observations hs bs mdl scn d r)
        @ observations L hs tidx bs mdl scn rs"
    by (simp add: observations_def)
  show ?case
    by (cases "row_date L r tidx")
      (simp_all add: split Cons.IH [OF rest] band_loop_table [OF r] Un_assoc)
qed

lemma region_table_of_table:
  assumes shaped: "list_all (row_ok hs bs) rs" and ne: "rs \<noteq> []"
    and time: "find_item ''time'' hs = Some tidx"
  shows "region_table L bs mdl scn (JList (JList hs # rs))
         = Inr (closing_notice hs bs (observations L hs tidx bs mdl scn rs),
                from_records (observations L hs tidx bs mdl scn rs))"
proof -
  from time have mem: "JStr ''time'' \<in> set hs"
    using find_item_None_iff [of "''time''" hs] by auto
  from ne have len: "\<not> Suc (length rs) < 2"
    by (cases rs) simp_all
  show ?thesis
    using mem len time
    by (simp add: region_table_def row_loop_table [OF shaped] finish_fetch_def
        closing_notice_def from_records_def frame_empty_def py_filter_in_list Let_def)
qed


lemma unusable_region_table:
  assumes "unusable arr"
  shows "\<exists>w. region_table L bs mdl scn arr = Inr (w, empty_table)"
proof (cases "py_truthy arr")
  case False
  then show ?thesis by (simp add: region_table_def)
next
  case True
  with assms obtain xs where arr: "arr = JList xs"
    and c: "length xs < 2 \<or> (case hd xs of JList hs \<Rightarrow> JStr ''time'' \<notin> set hs | _ \<Rightarrow> False)"
    by (auto simp: unusable_def split: jv.splits)
  show ?thesis
  proof (cases "length xs < 2")
    case True
    then show ?thesis by (simp add: region_table_def arr)
  next
    case False
    with c obtain hs where h: "hd xs = JList hs" and t: "JStr ''time'' \<notin> set hs"
      by (auto split: jv.splits)
    from False have "xs \<noteq> []" by auto
    then have "xs ! 0 = hd xs" by (simp add: hd_conv_nth)
    with False h t show ?thesis
      by (simp add: region_table_def arr)
  qed
qed

lemma table_region_table:
  assumes "table_shaped bs arr"
  shows "\<exists>w t. region_table L bs mdl scn arr = Inr (w, t)"
proof -
  from assms obtain xs where xs: "arr = JList xs"
    by (cases arr) (simp_all add: table_shaped_def)
  with assms obtain h rs where h: "xs = h # rs"
    by (cases xs) (simp_all add: table_shaped_def)
  with assms xs obtain hs where hs: "h = JList hs"
    by (cases h) (simp_all add: table_shaped_def)
  from xs h hs have arr: "arr = JList (JList hs # rs)"
    by simp
  with assms have ok: "list_all (row_ok hs bs) rs"
    by (simp add: table_shaped_def)
  show ?thesis
  proof (cases "rs = []")
    case True
    then show ?thesis by (simp add: region_table_def arr)
  next
    case False
    show ?thesis
    proof (cases "find_item ''time'' hs")
      case None
      then have "JStr ''time'' \<notin> set hs" by (simp add: find_item_None_iff)
      then have "unusable arr" by (simp add: unusable_def arr)
      then show ?thesis using unusable_region_table by blast
    next
      case (Some tidx)
      show ?thesis
        using region_table_of_table [OF ok False Some] by (simp add: arr)
    qed
  qed
qed

lemma fetch_after_checks:
  assumes "size_check R (make_query lat lon start end mdl scn) = None"
    and "check_bands R (make_query lat lon start end mdl scn) bands = (ns, Some bs)"
    and "get_region R (make_query lat lon start end mdl scn) bs = Inr arr"
  shows "fetch_point_timeseries L R lat lon start end bands mdl scn
         = (case region_table L bs mdl scn arr of Inl e \<Rightarrow> Inl e | Inr (w, df) \<Rightarrow> Inr (ns @ [w], df))"
  using assms by (simp add: fetch_point_timeseries_def)

lemma size_check_None_iff:
  "size_check R q = None \<longleftrightarrow> (\<exists>n. coll_size R q = Inr n \<and> n \<noteq> JNum 0 \<and> n \<noteq> JBool False)"
  by (auto simp: size_check_def split: sum.splits)

lemma check_bands_failed:
  "band_names R q = Inl e \<Longrightarrow> check_bands R q bands = ([Warn_band_check_failed e], Some bands)"
  by (simp add: check_bands_def)

lemma check_bands_list:
  "band_names R q = Inr (JList avail) \<Longrightarrow>
     snd (check_bands R q bands)
       = (if filter (\<lambda>b. JStr b \<in> set avail) bands = [] then None
          else Some (filter (\<lambda>b. JStr b \<in> set avail) bands))"
  by (simp add: check_bands_def py_filter_in_list)

lemma fetch_unusable:
  assumes d: "case coll_size R (make_query lat lon start end mdl scn) of
        Inl e \<Rightarrow> True
      | Inr n \<Rightarrow>
          n = JNum 0 \<or> n = JBool False
          \<or> (case snd (check_bands R (make_query lat lon start end mdl scn) bands) of
                None \<Rightarrow> True
              | Some bs \<Rightarrow> region_unusable R (make_query lat lon start end mdl scn) bs)"
  shows "\<exists>ns. fetch_point_timeseries L R lat lon start end bands mdl scn = Inr (ns, empty_table)"
proof -
  let ?q = "make_query lat lon start end mdl scn"
  let ?F = "fetch_point_timeseries L R lat lon start end bands mdl scn"
  obtain ns obs where cb: "check_bands R ?q bands = (ns, obs)"
    by (cases "check_bands R ?q bands")
  show ?thesis
  proof (cases "size_check R ?q")
    case (Some w)
    then show ?thesis by (simp add: fetch_point_timeseries_def)
  next
    case None
    then obtain n where n: "coll_size R ?q = Inr n" "n \<noteq> JNum 0" "n \<noteq> JBool False"
      by (auto simp: size_check_None_iff)
    show ?thesis
    proof (cases obs)
      case None': None
      with None cb show ?thesis by (simp add: fetch_point_timeseries_def)
    next
      case (Some bs)
      show ?thesis
      proof (cases "get_region R ?q bs")
        case (Inl e)
        with None cb Some show ?thesis by (simp add: fetch_point_timeseries_def)
      next
        case (Inr arr)
        with d n cb Some have "unusable arr"
          by (simp add: region_unusable_def)
        then obtain w where "region_table L bs mdl scn arr = Inr (w, empty_table)"
          using unusable_region_table by blast
        with None cb Some Inr show ?thesis
          by (simp add: fetch_after_checks)
      qed
    qed
  qed
qed

lemma fetch_tabular:
  assumes t: "case snd (check_bands R (make_query lat lon start end mdl scn) bands) of
        None \<Rightarrow> True
      | Some bs \<Rightarrow> region_tabular R (make_query lat lon start end mdl scn) bs"
  shows "\<exists>ns t. fetch_point_timeseries L R lat lon start end bands mdl scn = Inr (ns, t)"
proof -
  let ?q = "make_query lat lon start end mdl scn"
  let ?F = "fetch_point_timeseries L R lat lon start end bands mdl scn"
  obtain ns obs where cb: "check_bands R ?q bands = (ns, obs)"
    by (cases "check_bands R ?q bands")
  show ?thesis
  proof (cases "size_check R ?q")
    case (Some w)
    then show ?thesis by (simp add: fetch_point_timeseries_def)
  next
    case None
    show ?thesis
    proof (cases obs)
      case None': None
      with None cb show ?thesis by (simp add: fetch_point_timeseries_def)
    next
      case (Some bs)
      show ?thesis
      proof (cases "get_region R ?q bs")
        case (Inl e)
        with None cb Some show ?thesis by (simp add: fetch_point_timeseries_def)
      next
        case (Inr arr)
        with t cb Some have "unusable arr \<or> table_shaped bs arr"
          by (simp add: region_tabular_def)
        then obtain w df where "region_table L bs mdl scn arr = Inr (w, df)"
          using unusable_region_table table_region_table by blast
        with None cb Some Inr show ?thesis
          by (simp add: fetch_after_checks)
      qed
    qed
  qed
qed

text \<open>
  Claim C4, as amended. When the size request fails or reports no image, when the
  band-names request answers with a list that names none of the requested bands, when the
  \<open>getRegion\<close> request fails, or when its answer is empty, has fewer than two entries or
  has a header row without the \<open>time\<close> column, the fetcher returns the empty table with
  the columns date, band, value, model, scenario. When the band-names request answers
  with a list or fails, and the \<open>getRegion\<close> request fails or its answer is unusable or
  a table whose numbers are within the range of a float, no exception leaves the fetcher.
  A failure of the band-names request does not end the fetch: after it the fetcher asks
  for all requested bands, and from a table it returns their records.
\<close>

theorem fetch_point_timeseries_degrades:
  "(degrades R (make_query lat lon start end mdl scn) bands \<longrightarrow>
      (\<exists>ns. fetch_point_timeseries L R lat lon start end bands mdl scn = Inr (ns, empty_table)))
   \<and> (tabular R (make_query lat lon start end mdl scn) bands \<longrightarrow>
      (\<exists>ns t. fetch_point_timeseries L R lat lon start end bands mdl scn = Inr (ns, t)))
   \<and> (coll_size R (make_query lat lon start end mdl scn) = Inr n \<and> n \<noteq> JNum 0 \<and> n \<noteq> JBool False
       \<and> band_names R (make_query lat lon start end mdl scn) = Inl e
       \<and> get_region R (make_query lat lon start end mdl scn) bands = Inr (JList (JList hs # rs))
       \<and> rs \<noteq> [] \<and> find_item ''time'' hs = Some tidx \<and> list_all (row_ok hs bands) rs \<longrightarrow>
      fetch_point_timeseries L R lat lon start end bands mdl scn
        = Inr ([Warn_band_check_failed e,
                closing_notice hs bands (observations L hs tidx bands mdl scn rs)],
               from_records (observations L hs tidx bands mdl scn rs)))"
proof (intro conjI impI)
  let ?q = "make_query lat lon start end mdl scn"
  let ?F = "fetch_point_timeseries L R lat lon start end bands mdl scn"
  {
    assume d: "degrades R ?q bands"
    have "case coll_size R ?q of
        Inl e \<Rightarrow> True
      | Inr n \<Rightarrow>
          n = JNum 0 \<or> n = JBool False
          \<or> (case snd (check_bands R ?q bands) of
                None \<Rightarrow> True
              | Some bs \<Rightarrow> region_unusable R ?q bs)"
      using d
      by (auto simp: degrades_def check_bands_failed check_bands_list
          split: sum.splits jv.splits)
    then show "\<exists>ns. ?F = Inr (ns, empty_table)"
      by (rule fetch_unusable)
  }
  {
    assume t: "tabular R ?q bands"
    have "case snd (check_bands R ?q bands) of
        None \<Rightarrow> True
      | Some bs \<Rightarrow> region_tabular R ?q bs"
      using t
      by (auto simp: tabular_def check_bands_failed check_bands_list
          split: sum.splits jv.splits)
    then show "\<exists>ns t. ?F = Inr (ns, t)"
      by (rule fetch_tabular)
  }
  {
    assume h: "coll_size R ?q = Inr n \<and> n \<noteq> JNum 0 \<and> n \<noteq> JBool False
       \<and> band_names R ?q = Inl e
       \<and> get_region R ?q bands = Inr (JList (JList hs # rs))
       \<and> rs \<noteq> [] \<and> find_item ''time'' hs = Some tidx \<and> list_all (row_ok hs bands) rs"
    then have sc: "size_check R ?q = None"
      by (simp add: size_check_def)
    from h have cb: "check_bands R ?q bands = ([Warn_band_check_failed e], Some bands)"
      by (simp add: check_bands_failed)
    from h have region: "get_region R ?q bands = Inr (JList (JList hs # rs))"
      and ne: "rs \<noteq> []" and time: "find_item ''time'' hs = Some tidx"
      and shaped: "list_all (row_ok hs bands) rs"
      by simp_all
    show "?F = Inr ([Warn_band_check_failed e,
                closing_notice hs bands (observations L hs tidx bands mdl scn rs)],
               from_records (observations L hs tidx bands mdl scn rs))"
      by (simp only: fetch_after_checks [OF sc cb region]
          region_table_of_table [OF shaped ne time] sum.case prod.case append.simps)
  }
qed

lemma degrades_cases:
  "coll_size R q = Inl e \<Longrightarrow> degrades R q bands"
  "coll_size R q = Inr (JNum 0) \<Longrightarrow> degrades R q bands"
  "coll_size R q = Inr n \<Longrightarrow> band_names R q = Inr (JList avail)
     \<Longrightarrow> filter (\<lambda>b. JStr b \<in> set avail) bands = [] \<Longrightarrow> degrades R q bands"
  "coll_size R q = Inr n \<Longrightarrow> band_names R q = Inr (JList avail)
     \<Longrightarrow> get_region R q (filter (\<lambda>b. JStr b \<in> set avail) bands) = Inl e \<Longrightarrow> degrades R q bands"
  "coll_size R q = Inr n \<Longrightarrow> band_names R q = Inr (JList avail)
     \<Longrightarrow> get_region R q (filter (\<lambda>b. JStr b \<in> set avail) bands) = Inr arr \<Longrightarrow> unusable arr
     \<Longrightarrow> degrades R q bands"
  "coll_size R q = Inr n \<Longrightarrow> band_names R q = Inl e' \<Longrightarrow> get_region R q bands = Inl e
     \<Longrightarrow> degrades R q bands"
  by (simp_all add: degrades_def region_unusable_def)

lemma unusable_cases:
  "unusable JNull" "unusable (JList [])" "unusable (JList [header])"
  "JStr ''time'' \<notin> set hs \<Longrightarrow> unusable (JList (JList hs # rs))"
  by (simp_all add: unusable_def)

lemma band_names_fail_records:
  "observations example_lib
     [JStr ''id'', JStr ''longitude'', JStr ''latitude'', JStr ''time'', JStr ''tas'']
     3 [''tas''] ''CanESM5'' ''ssp245''
     [JList [JStr ''20200101'', JNum 0, JNum 51.5, JNum 1577836800000, JNum 283.15]]
   = [example_row ''CanESM5'' 10]"
  by (simp add: observations_def row_observations_def band_value_def row_date_def
      example_lib_def convert_units_def example_row_def)

theorem fetch_point_timeseries_degrades_witness:
  "degrades size_fail (make_query 51.5 0 ''2020-01-01'' ''2029-12-31'' ''CanESM5'' ''ssp245'') [''tas'']
   \<and> (\<exists>ns. fetch_point_timeseries example_lib size_fail 51.5 0 ''2020-01-01'' ''2029-12-31''
              [''tas''] ''CanESM5'' ''ssp245'' = Inr (ns, empty_table))
   \<and> tabular example_remote (make_query 51.5 0 ''2020-01-01'' ''2029-12-31'' ''CanESM5'' ''ssp245'') [''tas'']
   \<and> (\<exists>ns t. fetch_point_timeseries example_lib example_remote 51.5 0 ''2020-01-01'' ''2029-12-31''
              [''tas''] ''CanESM5'' ''ssp245'' = Inr (ns, t))
   \<and> coll_size band_names_fail (make_query 51.5 0 ''2020-01-01'' ''2029-12-31'' ''CanESM5'' ''ssp245'')
       = Inr (JNum 3653)
   \<and> band_names band_names_fail (make_query 51.5 0 ''2020-01-01'' ''2029-12-31'' ''CanESM5'' ''ssp245'')
       = Inl RemoteError
   \<and> get_region band_names_fail (make_query 51.5 0 ''2020-01-01'' ''2029-12-31'' ''CanESM5'' ''ssp245'')
         [''tas'']
       = Inr (JList
           [JList [JStr ''id'', JStr ''longitude'', JStr ''latitude'', JStr ''time'', JStr ''tas''],
            JList [JStr ''20200101'', JNum 0, JNum 51.5, JNum 1577836800000, JNum 283.15]])
   \<and> fetch_point_timeseries example_lib band_names_fail 51.5 0 ''2020-01-01'' ''2029-12-31''
         [''tas''] ''CanESM5'' ''ssp245''
       = Inr ([Warn_band_check_failed RemoteError, Success_records 1 [''tas'']],
              example_frame [example_row ''CanESM5'' 10])"
proof -
  let ?q = "make_query 51.5 0 ''2020-01-01'' ''2029-12-31'' ''CanESM5'' ''ssp245''"
  let ?hs = "[JStr ''id'', JStr ''longitude'', JStr ''latitude'', JStr ''time'', JStr ''tas'']"
  let ?rs = "[JList [JStr ''20200101'', JNum 0, JNum 51.5, JNum 1577836800000, JNum 283.15]]"
  let ?F = "fetch_point_timeseries example_lib band_names_fail 51.5 0 ''2020-01-01'' ''2029-12-31''
         [''tas''] ''CanESM5'' ''ssp245''"
  have a: "degrades size_fail ?q [''tas'']"
    by (simp add: degrades_def size_fail_def)
  have b: "tabular example_remote ?q [''tas'']"
    by (simp add: tabular_def region_tabular_def example_remote_def example_region_def
        table_shaped_def row_ok_def cell_ok_small)
  have c: "coll_size band_names_fail ?q = Inr (JNum 3653) \<and> JNum 3653 \<noteq> JNum 0
       \<and> JNum 3653 \<noteq> JBool False
       \<and> band_names band_names_fail ?q = Inl RemoteError
       \<and> get_region band_names_fail ?q [''tas''] = Inr (JList (JList ?hs # ?rs))
       \<and> ?rs \<noteq> [] \<and> find_item ''time'' ?hs = Some 3 \<and> list_all (row_ok ?hs [''tas'']) ?rs"
    by (simp add: band_names_fail_def example_remote_def example_region_def make_query_def
        row_ok_def cell_ok_small)
  from c
    fetch_point_timeseries_degrades [where R = band_names_fail and lat = "51.5" and lon = 0
      and start = "''2020-01-01''" and ?end = "''2029-12-31''" and mdl = "''CanESM5''"
      and scn = "''ssp245''" and bands = "[''tas'']" and L = example_lib
      and n = "JNum 3653" and e = RemoteError and hs = ?hs and rs = ?rs and tidx = 3]
  have "?F = Inr ([Warn_band_check_failed RemoteError,
                   closing_notice ?hs [''tas'']
                     (observations example_lib ?hs 3 [''tas''] ''CanESM5'' ''ssp245'' ?rs)],
                  from_records (observations example_lib ?hs 3 [''tas''] ''CanESM5'' ''ssp245'' ?rs))"
    by blast
  then have "?F = Inr ([Warn_band_check_failed RemoteError,
                        closing_notice ?hs [''tas''] [example_row ''CanESM5'' 10]],
                       from_records [example_row ''CanESM5'' 10])"
    by (simp only: band_names_fail_records)
  moreover have "closing_notice ?hs [''tas''] [example_row ''CanESM5'' 10] = Success_records 1 [''tas'']"
    by (simp add: closing_notice_def example_row_def)
  moreover have "from_records [example_row ''CanESM5'' 10] = example_frame [example_row ''CanESM5'' 10]"
    by (simp add: from_records_def example_frame_def)
  ultimately have d: "?F = Inr ([Warn_band_check_failed RemoteError, Success_records 1 [''tas'']],
                                example_frame [example_row ''CanESM5'' 10])"
    by (simp only:)
  from a b c d
    fetch_point_timeseries_degrades [where R = size_fail and lat = "51.5" and lon = 0
      and start = "''2020-01-01''" and ?end = "''2029-12-31''" and mdl = "''CanESM5''"
      and scn = "''ssp245''" and bands = "[''tas'']" and L = example_lib]
    fetch_point_timeseries_degrades [where R = example_remote and lat = "51.5" and lon = 0
      and start = "''2020-01-01''" and ?end = "''2029-12-31''" and mdl = "''CanESM5''"
      and scn = "''ssp245''" and bands = "[''tas'']" and L = example_lib]
  show ?thesis by blast
qed

text \<open>
  Claim C4 as stated fails: the band-names request raises, the fetcher goes on, and the
  table it returns has a row.
\<close>

theorem fetch_band_names_error_counterexample:
  "band_names band_names_fail (make_query 51.5 0 ''2020-01-01'' ''2029-12-31'' ''CanESM5'' ''ssp245'')
     = Inl RemoteError
   \<and> fetch_point_timeseries example_lib band_names_fail 51.5 0 ''2020-01-01'' ''2029-12-31''
       [''tas''] ''CanESM5'' ''ssp245''
     = Inr ([Warn_band_check_failed RemoteError, Success_records 1 [''tas'']],
            example_frame [example_row ''CanESM5'' 10])
   \<and> rows (example_frame [example_row ''CanESM5'' 10]) \<noteq> []"
  by (simp add: fetch_defs band_names_fail_def example_frame_def example_row_def)

text \<open>
  Two answers of \<^verbatim>\<open>getRegion\<close> after which an exception leaves the fetcher:
  \<^verbatim>\<open>r[idx]\<close> and \<^verbatim>\<open>float(val)\<close> of lines 665 and 669 are outside any
  \<^verbatim>\<open>try\<close>, so a row shorter than its header raises \<^verbatim>\<open>IndexError\<close> and a whole
  number beyond the range of a float raises \<^verbatim>\<open>OverflowError\<close>. Neither answer is a
  table in the sense above.
\<close>

lemma fetch_short_row_raises:
  "fetch_point_timeseries example_lib short_row 51.5 0 ''2020-01-01'' ''2029-12-31''
     [''tas''] ''CanESM5'' ''ssp245'' = Inl IndexError"
  by (simp add: fetch_defs short_row_def)

lemma fetch_huge_cell_raises:
  "fetch_point_timeseries example_lib huge_cell 51.5 0 ''2020-01-01'' ''2029-12-31''
     [''tas''] ''CanESM5'' ''ssp245'' = Inl OverflowError"
  by (simp add: fetch_defs huge_cell_def py_float_huge [simplified])

lemma huge_cell_not_tabular:
  "\<not> tabular huge_cell (make_query 51.5 0 ''2020-01-01'' ''2029-12-31'' ''CanESM5'' ''ssp245'') [''tas'']"
  using float_limit_huge
  by (simp add: tabular_def region_tabular_def huge_cell_def example_remote_def unusable_def
      table_shaped_def row_ok_def cell_ok_def)





subsection \<open>Output packager\<close>

lemma split_on_no_sep: "sep \<notin> set l \<Longrightarrow> split_on sep l = [l]"
  by (induction l) (auto split: list.splits)

lemma split_on_nonempty: "split_on sep t \<noteq> []"
  by (induction t) (auto split: list.splits)

lemma split_on_append_sep:
  "sep \<notin> set l \<Longrightarrow> split_on sep (l @ sep # t) = l # split_on sep t"
proof (induction l)
  case Nil
  then show ?case
    using split_on_nonempty [of sep t] by (auto split: list.splits)
next
  case (Cons c l)
  then show ?case by (auto split: list.splits)
qed

lemma split_on_unlines:
  "list_all (\<lambda>l. newline \<notin> set l) ls \<Longrightarrow> split_on newline (unlines ls) = ls @ [[]]"
proof (induction ls)
  case Nil
  then show ?case by (simp add: unlines_def)
next
  case (Cons l ls)
  then have "split_on newline (l @ newline # unlines ls) = l # split_on newline (unlines ls)"
    by (simp add: split_on_append_sep)
  with Cons show ?case by (simp add: unlines_def)
qed

lemma text_lines_unlines:
  "list_all (\<lambda>l. newline \<notin> set l) ls \<Longrightarrow> text_lines (unlines ls) = ls"
  by (simp add: text_lines_def split_on_unlines)

lemma join_append_sep: "ls \<noteq> [] \<Longrightarrow> join sep ls @ sep = concat (map (\<lambda>l. l @ sep) ls)"
  by (induction sep ls rule: join.induct) simp_all

lemma join_newline_unlines: "ls \<noteq> [] \<Longrightarrow> join [newline] ls @ [newline] = unlines ls"
  by (simp add: join_append_sep unlines_def)

lemma unlines_append: "unlines (xs @ ys) = unlines xs @ unlines ys"
  by (simp add: unlines_def)

lemma to_csv_unlines:
  "to_csv L df = unlines (join '','' (map csv_field (columns df))
      # map (\<lambda>r. join '','' (map (cell L r) (columns df))) (rows df))"
  by (simp add: to_csv_def csv_line_def unlines_def comp_def)

lemma csv_field_plain: "plain s \<Longrightarrow> csv_field s = s"
  by (simp add: csv_field_def plain_def)

lemma plain_no_comma: "plain s \<Longrightarrow> CHR '','' \<notin> set s"
  by (auto simp: plain_def list_ex_iff)

lemma plain_no_newline: "plain s \<Longrightarrow> newline \<notin> set s"
  by (auto simp: plain_def list_ex_iff)


lemma digit_char_not_newline: "n < 10 \<Longrightarrow> digit_char n \<noteq> newline"
proof
  assume n: "n < 10" and "digit_char n = newline"
  then have "of_char (digit_char n) = (of_char newline :: nat)" by simp
  with n show False by (simp add: digit_char_def newline_def)
qed

lemma str_nat_no_newline: "newline \<notin> set (str_nat n)"
proof (induction n rule: str_nat.induct)
  case (1 n)
  show ?case
  proof (cases "n < 10")
    case True
    then show ?thesis
      using digit_char_not_newline [of n] by (subst str_nat.simps) auto
  next
    case False
    then show ?thesis
      using 1 digit_char_not_newline [of "n mod 10"] by (subst str_nat.simps) auto
  qed
qed

lemma metadata_lines_no_newline:
  assumes "page_ok L P" and "list_all (\<lambda>m. newline \<notin> set m) ms"
  shows "list_all (\<lambda>l. newline \<notin> set l) (metadata_lines L P ms)"
proof -
  have nl: "newline = CHR 0x0A" by (simp add: newline_def)
  have f: "list_all (\<lambda>m. newline \<notin> set m) (filter Q ms)" for Q
    using assms(2) by (simp add: list_all_iff)
  have h: "ms \<noteq> [] \<Longrightarrow> newline \<notin> set (hd ms)"
    using assms(2) by (cases ms) simp_all
  from assms(1) have p: "newline \<notin> set (location_name P)" "newline \<notin> set (generated P)"
    "newline \<notin> set (float_repr L (page_lat P))" "newline \<notin> set (float_repr L (page_lon P))"
    by (simp_all add: page_ok_def)
  have s: "newline \<notin> set (str_nat k)" for k
    by (rule str_nat_no_newline)
  have d: "newline \<notin> set degree_sign" "newline \<notin> set superscript_two" "newline \<notin> set bullet"
    by (simp_all add: degree_sign_def superscript_two_def bullet_def nl)
  have m: "list_all (\<lambda>m. newline \<notin> set (''#     '' @ bullet @ '' '' @ m)) (filter Q ms)" for Q
    using f [of Q] d by (simp add: list_all_iff nl)
  show ?thesis
    unfolding metadata_lines_def Let_def
    using p [unfolded nl] s [unfolded nl] d [unfolded nl] h [unfolded nl]
    by (simp add: list.pred_map comp_def m [unfolded nl] f [unfolded nl] nl del: str_nat.simps)
qed


lemma metadata_lines_comment:
  "list_all (\<lambda>l. take 1 l = ''#'') (metadata_lines L P ms)"
  by (simp add: metadata_lines_def Let_def list.pred_map comp_def list.pred_True)

lemma metadata_lines_nonempty: "metadata_lines L P ms \<noteq> []"
  by (simp add: metadata_lines_def)

lemma create_metadata_unlines: "create_metadata L P ms = unlines (metadata_lines L P ms)"
  by (simp add: create_metadata_def join_newline_unlines metadata_lines_nonempty)

lemma file_lines:
  assumes "list_all (\<lambda>l. newline \<notin> set l) (metadata_lines L P ms)"
    and "newline \<notin> set hdr" and "list_all (\<lambda>l. newline \<notin> set l) ls"
  shows "text_lines (create_metadata L P ms @ unlines (hdr # ls)) = metadata_lines L P ms @ hdr # ls"
proof -
  have "create_metadata L P ms @ unlines (hdr # ls) = unlines (metadata_lines L P ms @ hdr # ls)"
    by (simp add: create_metadata_unlines unlines_append)
  moreover have "list_all (\<lambda>l. newline \<notin> set l) (metadata_lines L P ms @ hdr # ls)"
    using assms by simp
  ultimately show ?thesis
    by (simp only: text_lines_unlines)
qed

lemma drop_comments:
  assumes "take 1 hdr \<noteq> ''#''"
  shows "dropWhile (\<lambda>l. take 1 l = ''#'') (metadata_lines L P ms @ hdr # ls) = hdr # ls"
proof -
  have "dropWhile (\<lambda>l. take 1 l = ''#'') (metadata_lines L P ms @ hdr # ls)
      = dropWhile (\<lambda>l. take 1 l = ''#'') (hdr # ls)"
    using metadata_lines_comment [of L P ms]
    by (intro dropWhile_append2) (simp add: list_all_iff)
  with assms show ?thesis by simp
qed

lemma read_file_lines:
  assumes "list_all (\<lambda>l. newline \<notin> set l) (metadata_lines L P ms)"
    and "newline \<notin> set hdr" and "list_all (\<lambda>l. newline \<notin> set l) ls"
    and "take 1 hdr \<noteq> ''#''"
  shows "read_file L (create_metadata L P ms @ unlines (hdr # ls)) = read_rows L ls"
  by (simp only: read_file_def file_lines [OF assms(1,2,3)] drop_comments [OF assms(4)] list.case)


lemma cells_readable:
  "readable L r \<Longrightarrow> join '','' (map (cell L r) record_columns) = row_text L r"
  by (simp add: readable_def record_columns_def cell_def row_text_def csv_field_plain)

lemma header_row_text: "join '','' (map csv_field record_columns) = ''date,band,value,model,scenario''"
  by (simp add: record_columns_def csv_field_def dquote_def newline_def)

lemma row_text_no_newline: "readable L r \<Longrightarrow> newline \<notin> set (row_text L r)"
  by (auto simp: readable_def row_text_def newline_def dest: plain_no_newline [unfolded newline_def])

lemma split_row_text:
  assumes "readable L r"
  shows "split_on CHR '','' (row_text L r) = [date r, band r, float_repr L (val r), model r, scenario r]"
proof -
  from assms have c: "CHR '','' \<notin> set (date r)" "CHR '','' \<notin> set (band r)"
    "CHR '','' \<notin> set (float_repr L (val r))" "CHR '','' \<notin> set (model r)"
    "CHR '','' \<notin> set (scenario r)"
    by (simp_all add: readable_def plain_no_comma)
  have "row_text L r = date r @ CHR '','' # band r @ CHR '','' # float_repr L (val r)
      @ CHR '','' # model r @ CHR '','' # scenario r"
    by (simp add: row_text_def)
  then show ?thesis
    by (simp only: split_on_append_sep [OF c(1)] split_on_append_sep [OF c(2)]
        split_on_append_sep [OF c(3)] split_on_append_sep [OF c(4)] split_on_no_sep [OF c(5)])
qed

lemma read_row_text: "readable L r \<Longrightarrow> read_row L (row_text L r) = Some r"
  by (simp add: read_row_def split_row_text) (simp add: readable_def)

lemma read_rows_text: "list_all (readable L) rs \<Longrightarrow> read_rows L (map (row_text L) rs) = Some rs"
  by (induction rs) (simp_all add: read_row_text)

lemma to_csv_record_columns:
  assumes "columns T = record_columns" and "list_all (readable L) (rows T)"
  shows "to_csv L T = unlines (''date,band,value,model,scenario'' # map (row_text L) (rows T))"
proof -
  have eq: "map (\<lambda>r. join '','' (map (cell L r) record_columns)) (rows T) = map (row_text L) (rows T)"
    using assms(2) by (simp add: list_all_iff cells_readable)
  show ?thesis
    by (simp only: to_csv_unlines assms(1) header_row_text eq)
qed


lemma unique_models_no_newline:
  assumes "list_all (readable L) (rows T)"
  shows "list_all (\<lambda>m. newline \<notin> set m) (unique_models T)"
  using assms by (auto simp: list_all_iff unique_models_def readable_def plain_no_newline)

lemma header_literal:
  "newline \<notin> set ''date,band,value,model,scenario''"
  "take 1 ''date,band,value,model,scenario'' \<noteq> ''#''"
  by (simp_all add: newline_def)

lemma file_of_records:
  assumes cols: "columns T = record_columns" and rd: "list_all (readable L) (rows T)"
    and page: "page_ok L P" and ms: "list_all (\<lambda>m. newline \<notin> set m) ms"
  shows "text_lines (create_metadata L P ms @ to_csv L T)
           = metadata_lines L P ms @ ''date,band,value,model,scenario'' # map (row_text L) (rows T)"
    and "read_file L (create_metadata L P ms @ to_csv L T) = Some (rows T)"
proof -
  have m: "list_all (\<lambda>l. newline \<notin> set l) (metadata_lines L P ms)"
    using page ms by (rule metadata_lines_no_newline)
  have r: "list_all (\<lambda>l. newline \<notin> set l) (map (row_text L) (rows T))"
    using rd by (simp add: list_all_iff row_text_no_newline)
  note csv = to_csv_record_columns [OF cols rd]
  show "text_lines (create_metadata L P ms @ to_csv L T)
           = metadata_lines L P ms @ ''date,band,value,model,scenario'' # map (row_text L) (rows T)"
    unfolding csv by (rule file_lines [OF m header_literal(1) r])
  show "read_file L (create_metadata L P ms @ to_csv L T) = Some (rows T)"
    unfolding csv
    by (simp only: read_file_lines [OF m header_literal(1) r header_literal(2)] read_rows_text [OF rd])
qed

lemma combined_file_of_records:
  assumes "columns T = record_columns" and "list_all (readable L) (rows T)" and "page_ok L P"
  shows "text_lines (combined_file L P T)
           = metadata_lines L P (unique_models T)
             @ ''date,band,value,model,scenario'' # map (row_text L) (rows T)"
    and "read_file L (combined_file L P T) = Some (rows T)"
  unfolding combined_file_def
  using file_of_records [OF assms unique_models_no_newline [OF assms(2)]] by simp_all

lemma model_file_of_records:
  assumes "columns T = record_columns" and "list_all (readable L) (rows T)" and "page_ok L P"
    and "m \<in> set (unique_models T)"
  shows "text_lines (model_file L P T m)
           = metadata_lines L P [m]
             @ ''date,band,value,model,scenario'' # map (row_text L) (filter (\<lambda>r. model r = m) (rows T))"
    and "read_file L (model_file L P T m) = Some (filter (\<lambda>r. model r = m) (rows T))"
proof -
  let ?T = "T\<lparr>rows := filter (\<lambda>r. model r = m) (rows T)\<rparr>"
  have c: "columns ?T = record_columns" using assms(1) by simp
  have r: "list_all (readable L) (rows ?T)" using assms(2) by (simp add: list_all_iff)
  have m: "list_all (\<lambda>m. newline \<notin> set m) [m]"
    using unique_models_no_newline [OF assms(2)] assms(4) by (simp add: list_all_iff)
  show "text_lines (model_file L P T m)
           = metadata_lines L P [m]
             @ ''date,band,value,model,scenario'' # map (row_text L) (filter (\<lambda>r. model r = m) (rows T))"
    and "read_file L (model_file L P T m) = Some (filter (\<lambda>r. model r = m) (rows T))"
    using file_of_records [OF c r assms(3) m] by (simp_all add: model_file_def Let_def)
qed

lemma example_sweep_ensemble_only:
  "scenario_loop example_lib example_remote ensemble_only [(''2020-01-01'', ''2029-12-31'')]
     [''ssp245''] sweep_start
   = scenario_loop example_lib example_remote example_selection [(''2020-01-01'', ''2029-12-31'')]
     [''ssp245''] sweep_start"
proof -
  have f: "sel_models ensemble_only = sel_models example_selection"
    "sel_lat ensemble_only = sel_lat example_selection"
    "sel_lon ensemble_only = sel_lon example_selection"
    "sel_bands ensemble_only = sel_bands example_selection"
    by (simp_all add: ensemble_only_def)
  have m: "model_loop example_lib example_remote ensemble_only scn s e ms st
      = model_loop example_lib example_remote example_selection scn s e ms st" for scn s e ms st
    by (induction ms arbitrary: st) (simp_all add: f Let_def split: sum.splits)
  show ?thesis
    by (simp add: m f example_clamp Let_def)
qed

lemma ensemble_only_main_fetch:
  "run_outcome (main_fetch example_lib example_remote ensemble_only)
   = Ready (example_frame [example_row ''CanESM5'' 10, example_row ''EC-Earth3'' 20]) ensemble_only_out"
proof -
  have v: "validate ensemble_only = None" "show_configuration ensemble_only = None"
    and d: "decades ensemble_only = [''2020s (2020-01-01 to 2029-12-31)'']"
    and s: "sel_scen ensemble_only = [''ssp245'']"
    by (simp_all add: validate_def show_configuration_def example_selection_def ensemble_only_def
        AVAILABLE_BANDS_def KNOWN_MODELS_def)
  have l: "lookup_all DECADES (decades ensemble_only) = Inr [(''2020-01-01'', ''2029-12-31'')]"
    by (simp only: d example_decades)
  have b: "build_output ensemble_only
     [example_frame [example_row ''CanESM5'' 10], example_frame [example_row ''EC-Earth3'' 20]]
   = Inr (example_frame [example_row ''CanESM5'' 10, example_row ''EC-Earth3'' 20], ensemble_only_out)"
    by (simp add: build_output_def concat_frames_def union_columns_def sort_values_def
      sort_columns_def ensemble_frames_def ensemble_for_def mean_def ensemble_only_out_def
      example_frame_def example_row_def example_selection_def ensemble_only_def Let_def)
  show ?thesis
    by (simp add: main_fetch_def v l s example_sweep_ensemble_only example_sweep b Let_def
        del: scenario_loop.simps)
qed

lemma example_page_ok: "page_ok example_lib example_page"
  by (simp add: page_ok_def example_lib_def example_page_def newline_def)

lemma ensemble_only_text:
  "to_csv example_lib ensemble_only_out
   = unlines [''date,value,band,model,scenario'', ''2020-01-01,15.0,tas,ENSEMBLE-MEAN,ssp245'']"
  by (simp add: to_csv_def csv_line_def csv_field_def cell_def ensemble_only_out_def
      example_row_def example_lib_def newline_def dquote_def unlines_def)

lemma ensemble_only_models: "unique_models ensemble_only_out = [''ENSEMBLE-MEAN'']"
  by (simp add: unique_models_def ensemble_only_out_def example_row_def)

lemma ensemble_only_metadata:
  "list_all (\<lambda>l. newline \<notin> set l) (metadata_lines example_lib example_page [''ENSEMBLE-MEAN''])"
  by (rule metadata_lines_no_newline [OF example_page_ok]) (simp add: newline_def)

text \<open>
  Claim C6. Every download file is a block of lines that start with \<open>#\<close>, then the
  header row \<open>date,band,value,model,scenario\<close>, then one data row per record of the
  table. For a table with the columns in that order this is \<open>combined_file_of_records\<close>
  and \<open>model_file_of_records\<close>. With the ensemble mean as the only output the table has
  the column order of the aggregator, and the file has another header row: the sweep of
  the example selection without the individual models ends with \<open>ensemble_only_out\<close>,
  whose file reads as follows.
\<close>

theorem ensemble_only_header_row:
  "run_outcome (main_fetch example_lib example_remote ensemble_only)
     = Ready (example_frame [example_row ''CanESM5'' 10, example_row ''EC-Earth3'' 20]) ensemble_only_out
   \<and> text_lines (combined_file example_lib example_page ensemble_only_out)
     = metadata_lines example_lib example_page [''ENSEMBLE-MEAN'']
       @ [''date,value,band,model,scenario'', ''2020-01-01,15.0,tas,ENSEMBLE-MEAN,ssp245'']
   \<and> ''date,value,band,model,scenario'' \<noteq> ''date,band,value,model,scenario''"
proof -
  have "text_lines (create_metadata example_lib example_page [''ENSEMBLE-MEAN'']
        @ unlines (''date,value,band,model,scenario'' # [''2020-01-01,15.0,tas,ENSEMBLE-MEAN,ssp245'']))
     = metadata_lines example_lib example_page [''ENSEMBLE-MEAN'']
       @ ''date,value,band,model,scenario'' # [''2020-01-01,15.0,tas,ENSEMBLE-MEAN,ssp245'']"
    by (rule file_lines [OF ensemble_only_metadata]) (simp_all add: newline_def)
  then have "text_lines (combined_file example_lib example_page ensemble_only_out)
     = metadata_lines example_lib example_page [''ENSEMBLE-MEAN'']
       @ [''date,value,band,model,scenario'', ''2020-01-01,15.0,tas,ENSEMBLE-MEAN,ssp245'']"
    by (simp only: combined_file_def ensemble_only_models ensemble_only_text)
  with ensemble_only_main_fetch show ?thesis by simp
qed

text \<open>
  Claim C7. Writing a table to the text of a download file and reading the data rows
  back gives the records of the table. For a table with the columns in the documented
  order this is \<open>combined_file_of_records\<close>. The file of the ensemble-only table does not
  read back, although its record is readable: the value stands in the second cell and
  the band in the third.
\<close>

theorem ensemble_only_read_back:
  "read_file example_lib (combined_file example_lib example_page ensemble_only_out) = None
   \<and> rows ensemble_only_out = [example_row ''ENSEMBLE-MEAN'' 15]
   \<and> readable example_lib (example_row ''ENSEMBLE-MEAN'' 15)"
proof -
  have "read_file example_lib (create_metadata example_lib example_page [''ENSEMBLE-MEAN'']
        @ unlines (''date,value,band,model,scenario'' # [''2020-01-01,15.0,tas,ENSEMBLE-MEAN,ssp245'']))
     = read_rows example_lib [''2020-01-01,15.0,tas,ENSEMBLE-MEAN,ssp245'']"
    by (rule read_file_lines [OF ensemble_only_metadata]) (simp_all add: newline_def)
  also have "\<dots> = None"
    by (simp add: read_row_def example_lib_def)
  finally have "read_file example_lib (combined_file example_lib example_page ensemble_only_out) = None"
    by (simp only: combined_file_def ensemble_only_models ensemble_only_text)
  moreover have "readable example_lib (example_row ''ENSEMBLE-MEAN'' 15)"
    by (simp add: readable_def plain_def example_row_def example_lib_def dquote_def newline_def)
  ultimately show ?thesis
    by (simp add: ensemble_only_out_def)
qed

lemma example_read_back:
  "read_file example_lib (combined_file example_lib example_page
      (example_frame [example_row ''CanESM5'' 10, example_row ''EC-Earth3'' 20,
                      example_row ''ENSEMBLE-MEAN'' 15]))
   = Some [example_row ''CanESM5'' 10, example_row ''EC-Earth3'' 20, example_row ''ENSEMBLE-MEAN'' 15]"
proof -
  let ?T = "example_frame [example_row ''CanESM5'' 10, example_row ''EC-Earth3'' 20,
                      example_row ''ENSEMBLE-MEAN'' 15]"
  have c: "columns ?T = record_columns"
    by (simp add: example_frame_def record_columns_def)
  have r: "list_all (readable example_lib) (rows ?T)"
    by (simp add: example_frame_def readable_def plain_def example_row_def example_lib_def
        dquote_def newline_def)
  show ?thesis
    using combined_file_of_records(2) [OF c r example_page_ok] by (simp add: example_frame_def)
qed

end
